theory Spec2Isabelle
  imports Main "HOL-Library.Sublist"
begin

section \<open>Strings and paths\<close>

text \<open>
  A Python string is modelled as a \<^typ>\<open>string\<close>; one character stands for one code
  point below 256. The functions of this section are the parts of Python's \<open>str\<close>,
  \<open>posixpath\<close> and \<open>re\<close> that \<open>unitex/io.py\<close> and \<open>unitex/processor.py\<close> call.
\<close>

type_synonym path = string

definition startswith :: "string \<Rightarrow> string \<Rightarrow> bool" where
  "startswith s p = (take (length p) s = p)"

definition endswith :: "string \<Rightarrow> string \<Rightarrow> bool" where
  "endswith s p = (drop (length s - length p) s = p \<and> length p \<le> length s)"

text \<open>\<open>str.rfind(c)\<close> for a single character: the last index of \<open>c\<close>, or \<open>-1\<close>.\<close>

definition rfind :: "string \<Rightarrow> char \<Rightarrow> int" where
  "rfind s c =
     (if c \<in> set s
      then int (length s) - 1 - int (length (takeWhile (\<lambda>x. x \<noteq> c) (rev s)))
      else - 1)"

text \<open>\<open>str.rstrip(chars)\<close> for a single character.\<close>

definition rstrip_char :: "char \<Rightarrow> string \<Rightarrow> string" where
  "rstrip_char c s = rev (dropWhile (\<lambda>x. x = c) (rev s))"

text \<open>
  The whitespace of \<open>str.isspace\<close>, \<open>str.rstrip()\<close> and the pattern class \<open>\s\<close> of a
  Unicode pattern, for code points below 256.
\<close>

definition isspace :: "char \<Rightarrow> bool" where
  "isspace c = ((of_char c :: nat) \<in> {9, 10, 11, 12, 13, 28, 29, 30, 31, 32, 133, 160})"

definition rstrip :: "string \<Rightarrow> string" where
  "rstrip s = rev (dropWhile isspace (rev s))"

text \<open>\<open>str.split("\n")\<close>: the pieces between the line feeds, at least one piece.\<close>

fun split_lines :: "string \<Rightarrow> string list" where
  "split_lines [] = [[]]"
| "split_lines (c # cs) =
     (if c = CHR 0x0A then [] # split_lines cs
      else (case split_lines cs of
              [] \<Rightarrow> [[c]]
            | l # rest \<Rightarrow> (c # l) # rest))"

text \<open>
  \<open>posixpath.split\<close>:
  \<^verbatim>\<open>
  i = p.rfind(sep) + 1
  head, tail = p[:i], p[i:]
  if head and head != sep*len(head):
      head = head.rstrip(sep)
  return head, tail
  \<close>
\<close>

definition os_path_split :: "path \<Rightarrow> path \<times> path" where
  "os_path_split p =
     (let i = nat (rfind p (CHR ''/'') + 1);
          head = take i p;
          tail = drop i p;
          head' = (if head \<noteq> [] \<and> head \<noteq> replicate (length head) (CHR ''/'')
                   then rstrip_char (CHR ''/'') head else head)
      in (head', tail))"

text \<open>
  \<open>posixpath.splitext\<close> (\<open>genericpath._splitext\<close> with separator \<open>/\<close>, no alternative
  separator, extension separator \<open>.\<close>):
  \<^verbatim>\<open>
  sepIndex = p.rfind(sep)
  dotIndex = p.rfind(extsep)
  if dotIndex > sepIndex:
      # skip all leading dots
      filenameIndex = sepIndex + 1
      while filenameIndex < dotIndex:
          if p[filenameIndex:filenameIndex+1] != extsep:
              return p[:dotIndex], p[dotIndex:]
          filenameIndex += 1
  return p, p[:0]
  \<close>
  The loop returns at the first character between the two indices that is not a dot.
\<close>

definition os_path_splitext :: "path \<Rightarrow> path \<times> string" where
  "os_path_splitext p =
     (let sepIndex = rfind p (CHR ''/'');
          dotIndex = rfind p (CHR ''.'')
      in if dotIndex > sepIndex \<and>
            list_ex (\<lambda>c. c \<noteq> CHR ''.'') (drop (nat (sepIndex + 1)) (take (nat dotIndex) p))
         then (take (nat dotIndex) p, drop (nat dotIndex) p)
         else (p, []))"

text \<open>
  \<open>posixpath.join\<close> with two arguments:
  \<^verbatim>\<open>
  if b.startswith(sep): path = b
  elif not path or path.endswith(sep): path += b
  else: path += sep + b
  \<close>
\<close>

definition os_path_join :: "path \<Rightarrow> path \<Rightarrow> path" where
  "os_path_join a b =
     (if startswith b ''/'' then b
      else if a = [] \<or> endswith a ''/'' then a @ b
      else a @ ''/'' @ b)"

text \<open>
  The first lines of \<open>UnitexProcessor.open\<close> (processor.py, 319 to 324):
  \<^verbatim>\<open>
  directory, filename = os.path.split(path)
  name, extension = os.path.splitext(filename)
  self.__txt = path
  self.__snt = os.path.join(directory, "%s.snt" % name)
  self.__dir = os.path.join(directory, "%s_snt" % name)
  \<close>
  \<open>derive_snt\<close> and \<open>derive_dir\<close> are the two right-hand sides.
\<close>

definition derive_snt :: "path \<Rightarrow> path" where
  "derive_snt p =
     (let (directory, filename) = os_path_split p;
          (name, extension) = os_path_splitext filename
      in os_path_join directory (name @ ''.snt''))"

definition derive_dir :: "path \<Rightarrow> path" where
  "derive_dir p =
     (let (directory, filename) = os_path_split p;
          (name, extension) = os_path_splitext filename
      in os_path_join directory (name @ ''_snt''))"


section \<open>Errors, constants and configuration\<close>

datatype error =
    UnitexException string
  | AttributeError
  | TypeError

type_synonym 'a result = "error + 'a"

text \<open>
  Statements run in sequence until one raises: \<open>bind\<close> passes the value and the state of
  the first computation to the second, an exception ends the sequence with the state
  reached so far.
\<close>

definition bind :: "'a result \<times> 's \<Rightarrow> ('a \<Rightarrow> 's \<Rightarrow> 'b result \<times> 's) \<Rightarrow> 'b result \<times> 's" where
  "bind m f = (case m of (Inl e, s) \<Rightarrow> (Inl e, s) | (Inr x, s) \<Rightarrow> f x s)"

text \<open>
  \<open>UnitexConstants\<close> is declared in \<open>unitex/__init__.py\<close>, which is not part of the
  sources at hand. The constants that \<open>io.py\<close> and \<open>processor.py\<close> read are taken as a
  parameter. The three resource kinds are only produced by \<open>_load\<close> and compared in
  \<open>_free\<close>, so they are an enumeration.
\<close>

record unitex_constants =
  VFS_PREFIX :: string
  MATCH_MODE_LONGEST :: string
  MATCH_MODE_SHORTEST :: string
  OUTPUT_MODE_IGNORE :: string
  OUTPUT_MODE_MERGE :: string
  OUTPUT_MODE_REPLACE :: string
  FORMAT_MERGE :: string
  FORMAT_TEXT :: string
  SORT_TEXT_ORDER :: string

datatype resource_kind = RESOURCE_GRAMMAR | RESOURCE_DICTIONARY | RESOURCE_ALPHABET

text \<open>
  Option values are passed through to the engine untouched; \<open>pyval\<close> holds them. A
  bundle of keyword arguments is a list of pairs in insertion order.
\<close>

datatype pyval = PyNone | PyBool bool | PyInt int | PyStr string

type_synonym kwargs = "(string \<times> pyval) list"

text \<open>
  The configuration object (\<open>unitex/config.py\<close>, not part of the sources at hand) is a
  nested mapping with a fixed schema; \<open>processor.py\<close> reads the keys below. The keys
  \<open>verbose\<close>, \<open>debug\<close> and \<open>log\<close> only feed the logging set-up, which has no place in
  the model.
\<close>

record resources =
  alphabet :: "string option"
  alphabet_sorted :: "string option"
  sentence :: "string option"
  replace :: "string option"
  dictionaries :: "string list option"

record tools =
  tools_normalize :: kwargs
  fst2txt_start_on_space :: pyval
  fst2txt_char_by_char :: pyval
  tools_tokenize :: kwargs
  tools_dico :: kwargs
  locate_morpho :: pyval
  locate_start_on_space :: pyval
  locate_char_by_char :: pyval
  locate_korean :: pyval
  locate_arabic_rules :: pyval
  locate_negation_operator :: pyval
  locate_stop_token_count :: pyval
  locate_protect_dic_chars :: pyval
  locate_variable :: pyval
  locate_variable_error :: pyval
  concord_thai :: pyval

record config =
  persistence :: bool
  virtualization :: bool
  resources :: resources
  tools :: tools

section \<open>The native engine and the filesystem\<close>

text \<open>
  Everything outside the two modules is a \<open>call\<close>: the functions of the extension module
  \<open>_unitex\<close>, \<open>os.path.exists\<close>, the built-in file object that \<open>tag\<close> writes, and the
  functions of \<open>unitex.tools\<close> and \<open>unitex.resources\<close>. A session field that is passed
  to a tool is passed as it is, so it may be \<open>None\<close>.
\<close>

datatype call =
    Unitex_cp path path
  | Unitex_rm path
  | Unitex_mv path path
  | Unitex_mkdir path
  | Unitex_rmdir path
  | Unitex_ls path
  | Unitex_write_file path string nat
  | Unitex_append_to_file path string
  | Unitex_read_file path
  | Unitex_read_binary_file path
  | Os_path_exists path
  | Io_open path string
  | Io_write path string
  | Io_close path
  | Load_persistent_alphabet string
  | Load_persistent_fst2 string
  | Load_persistent_dictionary string
  | Free_persistent_alphabet string
  | Free_persistent_fst2 string
  | Free_persistent_dictionary string
  | Normalize "path option" kwargs
  | Fst2txt string "path option" string kwargs
  | Tokenize "path option" string kwargs
  | Dico "string list" "path option" string kwargs
  | Locate string "path option" string kwargs
  | Concord path string kwargs

text \<open>
  Modelled from the spec: the tools and the resource loaders (\<open>unitex/tools.py\<close>,
  \<open>unitex/resources.py\<close>) and the extension module are opaque operations; each tool
  and each file operation returns a success flag, a loader returns a handle, \<open>ls\<close>
  returns the file entries of a directory. What they answer is decided by the
  environment from the calls made so far and the current call, so every deterministic
  engine and filesystem is an instance. The model keeps the calls in the order they
  are made. An external call is assumed to return; logging is left out.
\<close>

record env =
  answer :: "call list \<Rightarrow> call \<Rightarrow> bool"
  listing :: "call list \<Rightarrow> path \<Rightarrow> string list"
  contents :: "call list \<Rightarrow> call \<Rightarrow> string"
  handle :: "call list \<Rightarrow> call \<Rightarrow> string"

definition external :: "env \<Rightarrow> call \<Rightarrow> call list \<Rightarrow> bool \<times> call list" where
  "external E c h = (answer E h c, h @ [c])"

section \<open>The file gateway (io.py)\<close>

definition cp :: "env \<Rightarrow> path \<Rightarrow> path \<Rightarrow> call list \<Rightarrow> bool \<times> call list" where
  "cp E source_path target_path h = external E (Unitex_cp source_path target_path) h"

definition rm :: "env \<Rightarrow> path \<Rightarrow> call list \<Rightarrow> bool \<times> call list" where
  "rm E p h = external E (Unitex_rm p) h"

definition mv :: "env \<Rightarrow> path \<Rightarrow> path \<Rightarrow> call list \<Rightarrow> bool \<times> call list" where
  "mv E old_path new_path h = external E (Unitex_mv old_path new_path) h"

definition mkdir :: "env \<Rightarrow> path \<Rightarrow> call list \<Rightarrow> bool \<times> call list" where
  "mkdir E p h = external E (Unitex_mkdir p) h"

definition rmdir :: "env \<Rightarrow> path \<Rightarrow> call list \<Rightarrow> bool \<times> call list" where
  "rmdir E p h = external E (Unitex_rmdir p) h"

definition ls :: "env \<Rightarrow> path \<Rightarrow> call list \<Rightarrow> string list \<times> call list" where
  "ls E p h = (listing E h p, h @ [Unitex_ls p])"

definition os_path_exists :: "env \<Rightarrow> path \<Rightarrow> call list \<Rightarrow> bool \<times> call list" where
  "os_path_exists E p h = external E (Os_path_exists p) h"

text \<open>
  \<^verbatim>\<open>
  def exists(path):
      if path.startswith(UnitexConstants.VFS_PREFIX) is False:
          return os.path.exists(path)
      return path in ls(path)
  \<close>
\<close>

definition exists :: "unitex_constants \<Rightarrow> env \<Rightarrow> path \<Rightarrow> call list \<Rightarrow> bool \<times> call list" where
  "exists K E p h =
     (if startswith p (VFS_PREFIX K) = False then os_path_exists E p h
      else (let (entries, h') = ls E p h in (p \<in> set entries, h')))"

subsection \<open>UnitexFile\<close>

record UnitexFile =
  file_use_bom :: "bool option"
  file_path :: "path option"
  file_mode :: "string option"

definition UnitexFile_init :: UnitexFile where
  "UnitexFile_init = \<lparr>file_use_bom = None, file_path = None, file_mode = None\<rparr>"

definition UnitexFile_open ::
  "UnitexFile \<Rightarrow> path \<Rightarrow> string option \<Rightarrow> bool \<Rightarrow> UnitexFile result" where
  "UnitexFile_open self file mode use_bom =
     (case file_path self of
        Some p \<Rightarrow>
          Inl (UnitexException
                 (''You must close the current file ('' @ p @ '') before open another one...''))
      | None \<Rightarrow>
          Inr (self\<lparr>file_use_bom := Some use_bom,
                    file_path := Some file,
                    file_mode := Some (case mode of None \<Rightarrow> ''r'' | Some m \<Rightarrow> m)\<rparr>))"

definition UnitexFile_close :: "UnitexFile \<Rightarrow> UnitexFile result" where
  "UnitexFile_close self =
     (case file_path self of
        None \<Rightarrow> Inl (UnitexException ''There is no file to close...'')
      | Some p \<Rightarrow> Inr (self\<lparr>file_path := None, file_mode := None\<rparr>))"

definition UnitexFile_write ::
  "UnitexFile \<Rightarrow> string \<Rightarrow> call list \<Rightarrow> unit result \<times> call list" where
  "UnitexFile_write self data h =
     (case file_path self of
        None \<Rightarrow> (Inl (UnitexException ''You must open a file before writing...''), h)
      | Some p \<Rightarrow>
          if file_mode self \<notin> {Some ''w'', Some ''a''}
          then (Inl (UnitexException (''File '' @ [CHR 0x27] @ p @ [CHR 0x27] @
                                      '' is opened in read mode...'')), h)
          else if file_mode self = Some ''w''
          then (let bom = (if file_use_bom self = Some True then 1 else 0)
                in (Inr (), h @ [Unitex_write_file p data bom]))
          else (Inr (), h @ [Unitex_append_to_file p data]))"

text \<open>
  In \<open>read\<close> the last test \<open>elif self.__mode == "b"\<close> is the only case left after the
  two modes have been checked, so it is the \<open>else\<close> branch here.
\<close>

definition UnitexFile_read ::
  "env \<Rightarrow> UnitexFile \<Rightarrow> call list \<Rightarrow> string result \<times> call list" where
  "UnitexFile_read E self h =
     (case file_path self of
        None \<Rightarrow> (Inl (UnitexException ''You must open a file before reading...''), h)
      | Some p \<Rightarrow>
          if file_mode self \<notin> {Some ''r'', Some ''b''}
          then (Inl (UnitexException (''File '' @ [CHR 0x27] @ p @ [CHR 0x27] @
                                      '' is opened in write/append mode...'')), h)
          else if file_mode self = Some ''r''
          then (Inr (contents E h (Unitex_read_file p)), h @ [Unitex_read_file p])
          else (Inr (contents E h (Unitex_read_binary_file p)),
                h @ [Unitex_read_binary_file p]))"

section \<open>The pipeline orchestrator (processor.py)\<close>

subsection \<open>escape\<close>

text \<open>
  \<^verbatim>\<open>
  RULES = []
  RULES.append((re.compile(r"&"), "&amp;"))

  def escape(sequence):
      for pattern, substitute in RULES:
          sequence = pattern.sub(substitute, sequence)
      return sequence
  \<close>
  The only pattern is one literal character and the substitute has no group reference,
  so \<open>pattern.sub\<close> replaces each occurrence of the character by the substitute.
\<close>

definition RULES :: "(char \<times> string) list" where
  "RULES = [(CHR ''&'', ''&amp;'')]"

definition re_sub :: "char \<Rightarrow> string \<Rightarrow> string \<Rightarrow> string" where
  "re_sub pattern substitute sequence =
     concat (map (\<lambda>c. if c = pattern then substitute else [c]) sequence)"

definition escape :: "string \<Rightarrow> string" where
  "escape sequence =
     foldl (\<lambda>sequence (pattern, substitute). re_sub pattern substitute sequence) sequence RULES"

subsection \<open>The processor object, loading and freeing\<close>

record UnitexProcessor =
  self_config :: config
  self_persisted_objects :: "(resource_kind \<times> string) list option"
  self_txt :: "path option"
  self_snt :: "path option"
  self_dir :: "path option"

definition quoted :: "string \<Rightarrow> string" where
  "quoted s = [CHR 0x27] @ s @ [CHR 0x27]"

definition load_persistent :: "env \<Rightarrow> call \<Rightarrow> call list \<Rightarrow> string \<times> call list" where
  "load_persistent E c h = (handle E h c, h @ [c])"

text \<open>\<open>self.__persisted_objects.append((_type, _object))\<close>\<close>

definition track :: "resource_kind \<Rightarrow> string \<Rightarrow> UnitexProcessor \<Rightarrow> UnitexProcessor" where
  "track t obj self =
     self\<lparr>self_persisted_objects :=
            map_option (\<lambda>objs. objs @ [(t, obj)]) (self_persisted_objects self)\<rparr>"

text \<open>\<open>self.__config["resources"][key] = value\<close>\<close>

definition set_resources ::
  "(resources \<Rightarrow> resources) \<Rightarrow> UnitexProcessor \<Rightarrow> UnitexProcessor" where
  "set_resources f self =
     self\<lparr>self_config := (self_config self)\<lparr>resources := f (resources (self_config self))\<rparr>\<rparr>"

text \<open>The five blocks of \<open>_load\<close>, in the order of the source.\<close>

definition load_alphabet ::
  "env \<Rightarrow> UnitexProcessor \<times> call list \<Rightarrow> UnitexProcessor \<times> call list" where
  "load_alphabet E = (\<lambda>(self, h).
     case alphabet (resources (self_config self)) of
       None \<Rightarrow> (self, h)
     | Some a \<Rightarrow>
         (let (obj, h') = load_persistent E (Load_persistent_alphabet a) h
          in (set_resources (\<lambda>r. r\<lparr>alphabet := Some obj\<rparr>)
                (track RESOURCE_ALPHABET obj self), h')))"

definition load_alphabet_sorted ::
  "env \<Rightarrow> UnitexProcessor \<times> call list \<Rightarrow> UnitexProcessor \<times> call list" where
  "load_alphabet_sorted E = (\<lambda>(self, h).
     case alphabet_sorted (resources (self_config self)) of
       None \<Rightarrow> (self, h)
     | Some a \<Rightarrow>
         (let (obj, h') = load_persistent E (Load_persistent_alphabet a) h
          in (set_resources (\<lambda>r. r\<lparr>alphabet_sorted := Some obj\<rparr>)
                (track RESOURCE_ALPHABET obj self), h')))"

definition load_sentence ::
  "env \<Rightarrow> UnitexProcessor \<times> call list \<Rightarrow> UnitexProcessor \<times> call list" where
  "load_sentence E = (\<lambda>(self, h).
     case sentence (resources (self_config self)) of
       None \<Rightarrow> (self, h)
     | Some g \<Rightarrow>
         (let (obj, h') = load_persistent E (Load_persistent_fst2 g) h
          in (set_resources (\<lambda>r. r\<lparr>sentence := Some obj\<rparr>)
                (track RESOURCE_GRAMMAR obj self), h')))"

definition load_replace ::
  "env \<Rightarrow> UnitexProcessor \<times> call list \<Rightarrow> UnitexProcessor \<times> call list" where
  "load_replace E = (\<lambda>(self, h).
     case replace (resources (self_config self)) of
       None \<Rightarrow> (self, h)
     | Some g \<Rightarrow>
         (let (obj, h') = load_persistent E (Load_persistent_fst2 g) h
          in (set_resources (\<lambda>r. r\<lparr>replace := Some obj\<rparr>)
                (track RESOURCE_GRAMMAR obj self), h')))"

fun load_dictionary_loop ::
  "env \<Rightarrow> string list \<Rightarrow> string list \<Rightarrow> UnitexProcessor \<times> call list \<Rightarrow>
   string list \<times> UnitexProcessor \<times> call list" where
  "load_dictionary_loop E [] objs (self, h) = (objs, self, h)"
| "load_dictionary_loop E (dictionary # rest) objs (self, h) =
     (let (obj, h') = load_persistent E (Load_persistent_dictionary dictionary) h
      in load_dictionary_loop E rest (objs @ [obj]) (track RESOURCE_DICTIONARY obj self, h'))"

definition load_dictionaries ::
  "env \<Rightarrow> UnitexProcessor \<times> call list \<Rightarrow> UnitexProcessor \<times> call list" where
  "load_dictionaries E = (\<lambda>(self, h).
     case dictionaries (resources (self_config self)) of
       None \<Rightarrow> (self, h)
     | Some ds \<Rightarrow>
         (let (objs, self', h') = load_dictionary_loop E ds [] (self, h)
          in (set_resources (\<lambda>r. r\<lparr>dictionaries := Some objs\<rparr>) self', h')))"

definition UnitexProcessor_load ::
  "env \<Rightarrow> UnitexProcessor \<times> call list \<Rightarrow> UnitexProcessor \<times> call list" where
  "UnitexProcessor_load E = (\<lambda>(self, h).
     if persistence (self_config self) = False then (self, h)
     else load_dictionaries E (load_replace E (load_sentence E (load_alphabet_sorted E
            (load_alphabet E (self\<lparr>self_persisted_objects := Some []\<rparr>, h))))))"

definition UnitexProcessor_init ::
  "env \<Rightarrow> config \<Rightarrow> call list \<Rightarrow> UnitexProcessor \<times> call list" where
  "UnitexProcessor_init E cfg h =
     UnitexProcessor_load E
       (\<lparr>self_config = cfg, self_persisted_objects = None,
         self_txt = None, self_snt = None, self_dir = None\<rparr>, h)"

text \<open>
  \<^verbatim>\<open>
  def _free(self):
      if self.__persisted_objects is None:
          return
      for _type, _object in self.__persisted_objects:
          if _type == UnitexConstants.RESOURCE_GRAMMAR:
              free_persistent_fst2(_object)
          elif _type == UnitexConstants.RESOURCE_DICTIONARY:
              free_persistent_dictionary(_object)
          elif _type == UnitexConstants.RESOURCE_ALPHABET:
              free_persistent_alphabet(_object)
  \<close>
\<close>

text \<open>
  A tracked kind is one of the three constants, so the last \<open>elif\<close> is the remaining
  case. The value a free function returns is not used.
\<close>

definition free_call :: "resource_kind \<times> string \<Rightarrow> call" where
  "free_call = (\<lambda>(t, obj).
     if t = RESOURCE_GRAMMAR then Free_persistent_fst2 obj
     else if t = RESOURCE_DICTIONARY then Free_persistent_dictionary obj
     else Free_persistent_alphabet obj)"

definition UnitexProcessor_free :: "UnitexProcessor \<Rightarrow> call list \<Rightarrow> call list" where
  "UnitexProcessor_free self h =
     (case self_persisted_objects self of
        None \<Rightarrow> h
      | Some objs \<Rightarrow> foldl (\<lambda>h x. h @ [free_call x]) h objs)"

definition UnitexProcessor_del :: "UnitexProcessor \<Rightarrow> call list \<Rightarrow> call list" where
  "UnitexProcessor_del self h = UnitexProcessor_free self h"

subsection \<open>Cleaning\<close>

text \<open>
  A gateway function that is handed \<open>None\<close> for a path fails in the extension module
  with a type error.
\<close>

definition rm_field :: "env \<Rightarrow> path option \<Rightarrow> call list \<Rightarrow> unit result \<times> call list" where
  "rm_field E p h =
     (case p of None \<Rightarrow> (Inl TypeError, h) | Some f \<Rightarrow> (Inr (), snd (rm E f h)))"

definition rmdir_field :: "env \<Rightarrow> path option \<Rightarrow> call list \<Rightarrow> unit result \<times> call list" where
  "rmdir_field E p h =
     (case p of None \<Rightarrow> (Inl TypeError, h) | Some d \<Rightarrow> (Inr (), snd (rmdir E d h)))"

text \<open>\<open>for vf in ls(...): rm(vf)\<close>\<close>

definition rm_each :: "env \<Rightarrow> path list \<Rightarrow> call list \<Rightarrow> call list" where
  "rm_each E vfs h = foldl (\<lambda>h vf. snd (rm E vf h)) h vfs"

text \<open>
  \<^verbatim>\<open>
  def _clean(self):
      if self.__txt is None:
          _LOGGER.error("Unable to clean processor. No file opened!")
          return
      if self.__config["virtualization"] is True:
          if self.__dir is not None:
              for vf in ls("%s%s" % (UnitexConstants.VFS_PREFIX, self.__dir)):
                  rm(vf)
          rm(self.__snt)
          rm(self.__txt)
      else:
          rm(self.__snt)
      rmdir(self.__dir)
  \<close>
\<close>

definition UnitexProcessor_clean ::
  "unitex_constants \<Rightarrow> env \<Rightarrow> UnitexProcessor \<Rightarrow> call list \<Rightarrow> unit result \<times> call list" where
  "UnitexProcessor_clean K E self h =
     (case self_txt self of
        None \<Rightarrow> (Inr (), h)
      | Some t \<Rightarrow>
          bind (if virtualization (self_config self) = True
                then (let h1 = (case self_dir self of
                                  None \<Rightarrow> h
                                | Some d \<Rightarrow>
                                    (let (vfs, h') = ls E (VFS_PREFIX K @ d) h
                                     in rm_each E vfs h'))
                      in bind (rm_field E (self_snt self) h1)
                              (\<lambda>_ h2. rm_field E (self_txt self) h2))
                else rm_field E (self_snt self) h)
               (\<lambda>_ h3. rmdir_field E (self_dir self) h3))"

subsection \<open>The preprocessing stages\<close>

text \<open>
  Each stage reads its resources from the configuration, raises when one is missing,
  calls the tool and raises when the tool returns \<open>False\<close>.
\<close>

definition UnitexProcessor_normalize ::
  "env \<Rightarrow> UnitexProcessor \<Rightarrow> call list \<Rightarrow> unit result \<times> call list" where
  "UnitexProcessor_normalize E self h =
     (let kwargs = tools_normalize (tools (self_config self));
          (ret, h') = external E (Normalize (self_txt self) kwargs) h
      in if ret = False then (Inl (UnitexException ''Text normalization failed!''), h')
         else (Inr (), h'))"

definition UnitexProcessor_segment ::
  "env \<Rightarrow> UnitexProcessor \<Rightarrow> call list \<Rightarrow> unit result \<times> call list" where
  "UnitexProcessor_segment E self h =
     (case sentence (resources (self_config self)) of
        None \<Rightarrow>
          (Inl (UnitexException ''Unable to segment text. No sentence grammar provided.''), h)
      | Some grammar \<Rightarrow>
         (case alphabet (resources (self_config self)) of
            None \<Rightarrow>
              (Inl (UnitexException ''Unable to segment text. No alphabet file provided.''), h)
          | Some alph \<Rightarrow>
             (let kwargs =
                    [(''start_on_space'', fst2txt_start_on_space (tools (self_config self))),
                     (''char_by_char'', fst2txt_char_by_char (tools (self_config self))),
                     (''merge'', PyBool True)];
                  (ret, h') = external E (Fst2txt grammar (self_snt self) alph kwargs) h
              in if ret = False then (Inl (UnitexException ''Text segmentation failed!''), h')
                 else (Inr (), h'))))"

definition UnitexProcessor_replace ::
  "env \<Rightarrow> UnitexProcessor \<Rightarrow> call list \<Rightarrow> unit result \<times> call list" where
  "UnitexProcessor_replace E self h =
     (case replace (resources (self_config self)) of
        None \<Rightarrow>
          (Inl (UnitexException ''Unable to normalize text. No replace grammar provided.''), h)
      | Some grammar \<Rightarrow>
         (case alphabet (resources (self_config self)) of
            None \<Rightarrow>
              (Inl (UnitexException ''Unable to normalize text. No alphabet file provided.''), h)
          | Some alph \<Rightarrow>
             (let kwargs =
                    [(''start_on_space'', fst2txt_start_on_space (tools (self_config self))),
                     (''char_by_char'', fst2txt_char_by_char (tools (self_config self))),
                     (''merge'', PyBool False)];
                  (ret, h') = external E (Fst2txt grammar (self_snt self) alph kwargs) h
              in if ret = False then (Inl (UnitexException ''Text normalization failed!''), h')
                 else (Inr (), h'))))"

definition UnitexProcessor_tokenize ::
  "env \<Rightarrow> UnitexProcessor \<Rightarrow> call list \<Rightarrow> unit result \<times> call list" where
  "UnitexProcessor_tokenize E self h =
     (case alphabet (resources (self_config self)) of
        None \<Rightarrow>
          (Inl (UnitexException ''Unable to tokenize text. No alphabet file provided.''), h)
      | Some alph \<Rightarrow>
         (let kwargs = tools_tokenize (tools (self_config self));
              (ret, h') = external E (Tokenize (self_snt self) alph kwargs) h
          in if ret = False then (Inl (UnitexException ''Text tokenization failed!''), h')
             else (Inr (), h')))"

text \<open>\<open>if not dictionaries\<close> holds for \<open>None\<close> and for the empty list.\<close>

definition UnitexProcessor_lexicalize ::
  "env \<Rightarrow> UnitexProcessor \<Rightarrow> call list \<Rightarrow> unit result \<times> call list" where
  "UnitexProcessor_lexicalize E self h =
     (case dictionaries (resources (self_config self)) of
        None \<Rightarrow>
          (Inl (UnitexException ''Unable to lexicalize text. No dictionaries provided.''), h)
      | Some ds \<Rightarrow>
         if ds = []
         then (Inl (UnitexException ''Unable to lexicalize text. No dictionaries provided.''), h)
         else
         (case alphabet (resources (self_config self)) of
            None \<Rightarrow>
              (Inl (UnitexException ''Unable to tokenize text. No alphabet file provided.''), h)
          | Some alph \<Rightarrow>
             (let kwargs = tools_dico (tools (self_config self));
                  (ret, h') = external E (Dico ds (self_snt self) alph kwargs) h
              in if ret = False then (Inl (UnitexException ''Text lexicalization failed!''), h')
                 else (Inr (), h'))))"

subsection \<open>open and close\<close>

text \<open>
  \<^verbatim>\<open>
  def open(self, path, mode="srtl", tagged=False):
      directory, filename = os.path.split(path)
      name, extension = os.path.splitext(filename)
      self.__txt = path
      self.__snt = os.path.join(directory, "%s.snt" % name)
      self.__dir = os.path.join(directory, "%s_snt" % name)
      if self.__config["virtualization"] is True:
          txt = "%s%s" % (UnitexConstants.VFS_PREFIX, self.__txt)
          cp(self.__txt, txt)
          self.__txt = txt
          self.__snt = "%s%s" % (UnitexConstants.VFS_PREFIX, self.__snt)
      if os.path.exists(self.__dir) is False:
          mkdir(self.__dir)
      self._normalize()
      if tagged is False:
          if "s" in mode:
              self._segment()
          if "r" in mode:
              self._replace()
      if "t" in mode:
          self._tokenize()
      if "l" in mode:
          self._lexicalize()
  \<close>
  \<open>stage_paths\<close> is the part up to the working directory, \<open>run_stages\<close> the rest. An
  exception leaves the fields as they were set.
\<close>

definition stage_paths ::
  "unitex_constants \<Rightarrow> env \<Rightarrow> path \<Rightarrow> UnitexProcessor \<times> call list \<Rightarrow>
   UnitexProcessor \<times> call list" where
  "stage_paths K E p = (\<lambda>(self, h).
     (let self1 = self\<lparr>self_txt := Some p,
                        self_snt := Some (derive_snt p),
                        self_dir := Some (derive_dir p)\<rparr>;
          (self2, h2) =
            (if virtualization (self_config self) = True
             then (let txt = VFS_PREFIX K @ p;
                       (ret, h1) = cp E p txt h
                   in (self1\<lparr>self_txt := Some txt,
                              self_snt := Some (VFS_PREFIX K @ derive_snt p)\<rparr>, h1))
             else (self1, h));
          (ex, h3) = os_path_exists E (derive_dir p) h2;
          h4 = (if ex = False then snd (mkdir E (derive_dir p) h3) else h3)
      in (self2, h4)))"

definition run_stages ::
  "env \<Rightarrow> string \<Rightarrow> bool \<Rightarrow> UnitexProcessor \<Rightarrow> call list \<Rightarrow> unit result \<times> call list" where
  "run_stages E mode tagged self h =
     bind (UnitexProcessor_normalize E self h) (\<lambda>_ h.
     bind (if tagged = False
           then bind (if CHR ''s'' \<in> set mode then UnitexProcessor_segment E self h
                      else (Inr (), h)) (\<lambda>_ h.
                if CHR ''r'' \<in> set mode then UnitexProcessor_replace E self h
                else (Inr (), h))
           else (Inr (), h)) (\<lambda>_ h.
     bind (if CHR ''t'' \<in> set mode then UnitexProcessor_tokenize E self h
           else (Inr (), h)) (\<lambda>_ h.
     if CHR ''l'' \<in> set mode then UnitexProcessor_lexicalize E self h
     else (Inr (), h))))"

definition UnitexProcessor_open ::
  "unitex_constants \<Rightarrow> env \<Rightarrow> path \<Rightarrow> string \<Rightarrow> bool \<Rightarrow> UnitexProcessor \<times> call list \<Rightarrow>
   unit result \<times> UnitexProcessor \<times> call list" where
  "UnitexProcessor_open K E p mode tagged s =
     (let (self, h) = stage_paths K E p s;
          (r, h') = run_stages E mode tagged self h
      in (r, self, h'))"

text \<open>
  \<^verbatim>\<open>
  def close(self, clean=True, free=False):
      if clean is True:
          self._clean()
      if free is True:
          self._free()
      self.__txt = None
      self.__snt = None
      self.__dir = None
  \<close>
\<close>

definition UnitexProcessor_close ::
  "unitex_constants \<Rightarrow> env \<Rightarrow> bool \<Rightarrow> bool \<Rightarrow> UnitexProcessor \<times> call list \<Rightarrow>
   unit result \<times> UnitexProcessor \<times> call list" where
  "UnitexProcessor_close K E clean free = (\<lambda>(self, h).
     case (if clean = True then UnitexProcessor_clean K E self h else (Inr (), h)) of
       (Inl e, h1) \<Rightarrow> (Inl e, self, h1)
     | (Inr _, h1) \<Rightarrow>
         (let h2 = (if free = True then UnitexProcessor_free self h1 else h1)
          in (Inr (), self\<lparr>self_txt := None, self_snt := None, self_dir := None\<rparr>, h2)))"

subsection \<open>locate and concord\<close>

text \<open>
  \<open>os.path.join(self.__dir, name)\<close>: a type error when no corpus is open, since the
  field is \<open>None\<close> then. With virtualization the prefix is put in front.
\<close>

definition workdir_file ::
  "unitex_constants \<Rightarrow> UnitexProcessor \<Rightarrow> string \<Rightarrow> path result" where
  "workdir_file K self name =
     (case self_dir self of
        None \<Rightarrow> Inl TypeError
      | Some d \<Rightarrow>
          (let f = os_path_join d name
           in Inr (if virtualization (self_config self) = True then VFS_PREFIX K @ f else f)))"

text \<open>
  \<open>_locate\<close> (processor.py, 203 to 245): the alphabet is required first, then the
  keyword arguments are collected and the two modes are checked, and only then is
  the tool called.
\<close>

definition locate_kwargs :: "UnitexProcessor \<Rightarrow> kwargs" where
  "locate_kwargs self =
     (let t = tools (self_config self)
      in [(''morpho'', locate_morpho t),
          (''start_on_space'', locate_start_on_space t),
          (''char_by_char'', locate_char_by_char t),
          (''korean'', locate_korean t),
          (''arabic_rules'', locate_arabic_rules t),
          (''negation_operator'', locate_negation_operator t),
          (''stop_token_count'', locate_stop_token_count t),
          (''protect_dic_chars'', locate_protect_dic_chars t),
          (''variable'', locate_variable t),
          (''variable_error'', locate_variable_error t),
          (''sntdir'', PyNone),
          (''number_of_matches'', PyNone),
          (''ambiguous_outputs'', PyBool False)])"

definition UnitexProcessor_locate ::
  "unitex_constants \<Rightarrow> env \<Rightarrow> UnitexProcessor \<Rightarrow> string \<Rightarrow> string \<Rightarrow> string \<Rightarrow> call list \<Rightarrow>
   path result \<times> call list" where
  "UnitexProcessor_locate K E self grammar match_mode output_mode h =
     (case alphabet (resources (self_config self)) of
        None \<Rightarrow>
          (Inl (UnitexException ''Unable to locate pattern. No alphabet file provided.''), h)
      | Some alph \<Rightarrow>
          if match_mode \<notin> {MATCH_MODE_LONGEST K, MATCH_MODE_SHORTEST K}
          then (Inl (UnitexException (''Wrong value for the '' @ quoted ''match_mode'' @
                       '' option. UnitexConstants.MATCH_MODE_X required.'')), h)
          else if output_mode \<notin> {OUTPUT_MODE_IGNORE K, OUTPUT_MODE_MERGE K,
                                    OUTPUT_MODE_REPLACE K}
          then (Inl (UnitexException (''Wrong value for the '' @ quoted ''output_mode'' @
                       '' option. UnitexConstants.OUTPUT_MODE_X required.'')), h)
          else
          (let kwargs = locate_kwargs self @
                        [(''match_mode'', PyStr match_mode),
                         (''output_mode'', PyStr output_mode)];
               (ret, h1) = external E (Locate grammar (self_snt self) alph kwargs) h
           in if ret = False then (Inl (UnitexException ''Locate failed!''), h1)
              else
              (case workdir_file K self ''concord.ind'' of
                 Inl e \<Rightarrow> (Inl e, h1)
               | Inr index \<Rightarrow>
                   (let (ex, h2) = exists K E index h1
                    in if ex = False
                       then (Inl (UnitexException ''Locate failed! No index produced.''), h2)
                       else (Inr index, h2)))))"

definition concord_kwargs :: "unitex_constants \<Rightarrow> UnitexProcessor \<Rightarrow> kwargs" where
  "concord_kwargs K self =
     [(''font'', PyNone),
      (''fontsize'', PyNone),
      (''only_ambiguous'', PyBool False),
      (''left'', PyStr ''0''),
      (''right'', PyStr ''0''),
      (''sort'', PyStr (SORT_TEXT_ORDER K)),
      (''script'', PyNone),
      (''offsets'', PyNone),
      (''unxmlize'', PyNone),
      (''directory'', PyNone),
      (''thai'', concord_thai (tools (self_config self)))]"

text \<open>
  \<open>_concord(index, merge=False, output=None)\<close> (processor.py, 247 to 291). The result
  path is fixed before the tool is called.
\<close>

definition concord_target ::
  "unitex_constants \<Rightarrow> UnitexProcessor \<Rightarrow> bool \<Rightarrow> path option \<Rightarrow> (kwargs \<times> path) result" where
  "concord_target K self merge output =
     (if merge = True
      then (case output of
              None \<Rightarrow> Inl (UnitexException
                ''You must provide the output file path to use the merge option.'')
            | Some out \<Rightarrow>
                Inr ([(''format'', PyStr (FORMAT_MERGE K)),
                      (''output'', PyStr out),
                      (''only_matches'', PyBool False)], out))
      else (case workdir_file K self ''concord.txt'' of
              Inl e \<Rightarrow> Inl e
            | Inr res \<Rightarrow>
                Inr ([(''format'', PyStr (FORMAT_TEXT K)),
                      (''output'', PyNone),
                      (''only_matches'', PyBool False)], res)))"

definition UnitexProcessor_concord ::
  "unitex_constants \<Rightarrow> env \<Rightarrow> UnitexProcessor \<Rightarrow> path \<Rightarrow> bool \<Rightarrow> path option \<Rightarrow> call list \<Rightarrow>
   path result \<times> call list" where
  "UnitexProcessor_concord K E self index merge output h =
     (case alphabet (resources (self_config self)) of
        None \<Rightarrow>
          (Inl (UnitexException ''Unable to build concordance. No alphabet file provided.''), h)
      | Some alph \<Rightarrow>
         (case concord_target K self merge output of
            Inl e \<Rightarrow> (Inl e, h)
          | Inr (extra, res) \<Rightarrow>
             (let (ret, h1) = external E (Concord index alph (concord_kwargs K self @ extra)) h
              in if ret = False then (Inl (UnitexException ''Concord failed!''), h1)
                 else (let (ex, h2) = exists K E res h1
                       in if ex = False
                          then (Inl (UnitexException
                                 ''Concord failed! No concordances produced.''), h2)
                          else (Inr res, h2)))))"

subsection \<open>iter\<close>

text \<open>
  The pattern \<open>([^\s]+) ([^\s]+)(?: (.*))?\<close>. \<open>ind_match\<close> is a match that starts at the
  first character: the longest run without whitespace, one space, the longest run
  without whitespace, and then, when a space follows, the rest up to the next line
  feed as the third group. A shorter first or second run is followed by a character
  that is not a space, so backtracking finds no other match. \<open>ind_search\<close> is
  \<open>ind.search(line)\<close> followed by \<open>groups()\<close>: the match at the leftmost position that
  has one, \<open>None\<close> when there is none.
\<close>

definition ind_match :: "string \<Rightarrow> (string \<times> string \<times> string option) option" where
  "ind_match s =
     (let g0 = takeWhile (\<lambda>c. \<not> isspace c) s;
          r0 = dropWhile (\<lambda>c. \<not> isspace c) s
      in if g0 = [] then None
         else (case r0 of
                 [] \<Rightarrow> None
               | c # r1 \<Rightarrow>
                   if c \<noteq> CHR '' '' then None
                   else (let g1 = takeWhile (\<lambda>c. \<not> isspace c) r1;
                             r2 = dropWhile (\<lambda>c. \<not> isspace c) r1
                         in if g1 = [] then None
                            else (case r2 of
                                    [] \<Rightarrow> Some (g0, g1, None)
                                  | c' # r3 \<Rightarrow>
                                      if c' = CHR '' ''
                                      then Some (g0, g1,
                                             Some (takeWhile (\<lambda>c. c \<noteq> CHR 0x0A) r3))
                                      else Some (g0, g1, None)))))"

fun ind_search :: "string \<Rightarrow> (string \<times> string \<times> string option) option" where
  "ind_search [] = None"
| "ind_search (c # cs) =
     (case ind_match (c # cs) of
        Some groups \<Rightarrow> Some groups
      | None \<Rightarrow> ind_search cs)"

record match_record =
  offsets :: "string \<times> string"
  matched :: "string option"

text \<open>
  The loop of \<open>iter\<close> over \<open>lines[1:]\<close>:
  \<^verbatim>\<open>
  for line in lines[1:]:
      line = line.rstrip()
      if not line:
          continue
      match = ind.search(line)
      groups = match.groups()
      if output_mode == UnitexConstants.OUTPUT_MODE_IGNORE:
          yield {"offsets": (groups[0], groups[1]), "match": ""}
      else:
          yield {"offsets": (groups[0], groups[1]), "match": groups[2]}
  \<close>
  The result is the list of the records yielded, in order, and the exception that ended
  the iteration, if any: \<open>match.groups()\<close> raises an attribute error when the line has no
  match. The offsets are the two groups as they stand in the line.
\<close>

fun iter_lines ::
  "unitex_constants \<Rightarrow> string \<Rightarrow> string list \<Rightarrow> match_record list \<times> error option" where
  "iter_lines K output_mode [] = ([], None)"
| "iter_lines K output_mode (l # lines) =
     (let line = rstrip l
      in if line = [] then iter_lines K output_mode lines
         else (case ind_search line of
                 None \<Rightarrow> ([], Some AttributeError)
               | Some (g0, g1, g2) \<Rightarrow>
                   (let r = (if output_mode = OUTPUT_MODE_IGNORE K
                             then \<lparr>offsets = (g0, g1), matched = Some []\<rparr>
                             else \<lparr>offsets = (g0, g1), matched = g2\<rparr>);
                        (rs, e) = iter_lines K output_mode lines
                    in (r # rs, e))))"

definition iter_content ::
  "unitex_constants \<Rightarrow> string \<Rightarrow> string \<Rightarrow> match_record list \<times> error option" where
  "iter_content K output_mode content = iter_lines K output_mode (tl (split_lines content))"

text \<open>
  Reading a whole file through a fresh handle, as \<open>iter\<close> and \<open>tag\<close> do:
  \<^verbatim>\<open>
  matches = UnitexFile()
  matches.open(index, "r")
  content = matches.read()
  matches.close()
  \<close>
\<close>

definition read_all :: "env \<Rightarrow> path \<Rightarrow> call list \<Rightarrow> string result \<times> call list" where
  "read_all E p h =
     (case UnitexFile_open UnitexFile_init p (Some ''r'') False of
        Inl e \<Rightarrow> (Inl e, h)
      | Inr f \<Rightarrow>
          bind (UnitexFile_read E f h) (\<lambda>content h'.
            case UnitexFile_close f of
              Inl e \<Rightarrow> (Inl e, h')
            | Inr f' \<Rightarrow> (Inr content, h')))"

text \<open>
  \<open>iter(grammar, **kwargs)\<close> is a generator; the model is the generator run to its end.
  A keyword argument that is not given is \<open>None\<close> here and takes the default.
\<close>

definition UnitexProcessor_iter ::
  "unitex_constants \<Rightarrow> env \<Rightarrow> UnitexProcessor \<Rightarrow> string \<Rightarrow> string option \<Rightarrow> string option \<Rightarrow>
   call list \<Rightarrow> (match_record list \<times> error option) \<times> call list" where
  "UnitexProcessor_iter K E self grammar match_mode_arg output_mode_arg h =
     (let match_mode = (case match_mode_arg of None \<Rightarrow> MATCH_MODE_LONGEST K | Some m \<Rightarrow> m);
          output_mode = (case output_mode_arg of None \<Rightarrow> OUTPUT_MODE_MERGE K | Some m \<Rightarrow> m)
      in if match_mode \<notin> {MATCH_MODE_LONGEST K, MATCH_MODE_SHORTEST K}
         then (([], Some (UnitexException (''Invalid match mode '' @ quoted ''%s'' @ ''...''))), h)
         else if output_mode \<notin> {OUTPUT_MODE_MERGE K, OUTPUT_MODE_IGNORE K,
                                   OUTPUT_MODE_REPLACE K}
         then (([], Some (UnitexException (''Invalid output mode '' @ quoted ''%s'' @ ''...''))), h)
         else (case UnitexProcessor_locate K E self grammar match_mode output_mode h of
                 (Inl e, h1) \<Rightarrow> (([], Some e), h1)
               | (Inr index, h1) \<Rightarrow>
                   (case read_all E index h1 of
                      (Inl e, h2) \<Rightarrow> (([], Some e), h2)
                    | (Inr content, h2) \<Rightarrow> (iter_content K output_mode content, h2))))"

subsection \<open>tag\<close>

text \<open>
  \<open>tag(grammar, output, **kwargs)\<close> (processor.py, 478 to 541). The output file of the
  XML branch is written through the built-in \<open>open\<close>; its calls are \<open>Io_open\<close>,
  \<open>Io_write\<close> and \<open>Io_close\<close>.
\<close>

definition xml_declaration :: string where
  "xml_declaration =
     ''<?xml version='' @ quoted ''1.0'' @ '' encoding='' @ quoted ''UTF-8'' @ ''?>'' @ [CHR 0x0A]"

definition tagfile_open :: "string \<Rightarrow> string" where
  "tagfile_open grammar = ''<TAGFILE query='' @ quoted grammar @ ''>'' @ [CHR 0x0A]"

definition tagfile_close :: string where
  "tagfile_close = ''</TAGFILE>'' @ [CHR 0x0A]"

definition tag_xml ::
  "unitex_constants \<Rightarrow> env \<Rightarrow> UnitexProcessor \<Rightarrow> string \<Rightarrow> path \<Rightarrow> path \<Rightarrow> call list \<Rightarrow>
   bool result \<times> call list" where
  "tag_xml K E self grammar output index h =
     (case workdir_file K self ''concord-merge-temp.txt'' of
        Inl e \<Rightarrow> (Inl e, h)
      | Inr tmp \<Rightarrow>
          bind (UnitexProcessor_concord K E self index True (Some tmp) h) (\<lambda>_ h1.
            (let (ex, h2) = exists K E tmp h1
             in if ex = False
                then (Inl (UnitexException ''No (temporary) tagged file produced!''), h2)
                else
                (let h3 = h2 @ [Io_open output ''w'',
                                Io_write output xml_declaration,
                                Io_write output (tagfile_open grammar)]
                 in bind (read_all E tmp h3) (\<lambda>content h4.
                      (let h5 = h4 @ [Io_write output (escape content),
                                      Io_write output tagfile_close,
                                      Io_close output];
                           (ret, h6) = rm E tmp h5
                       in (Inr True, h6)))))))"

definition UnitexProcessor_tag ::
  "unitex_constants \<Rightarrow> env \<Rightarrow> UnitexProcessor \<Rightarrow> string \<Rightarrow> path \<Rightarrow> bool \<Rightarrow>
   string option \<Rightarrow> string option \<Rightarrow> call list \<Rightarrow> bool result \<times> call list" where
  "UnitexProcessor_tag K E self grammar output xml match_mode_arg output_mode_arg h =
     (let match_mode = (case match_mode_arg of None \<Rightarrow> MATCH_MODE_LONGEST K | Some m \<Rightarrow> m);
          output_mode = (case output_mode_arg of None \<Rightarrow> OUTPUT_MODE_MERGE K | Some m \<Rightarrow> m)
      in if match_mode \<notin> {MATCH_MODE_LONGEST K, MATCH_MODE_SHORTEST K}
         then (Inl (UnitexException (''Invalid match mode '' @ quoted ''%s'' @ ''...'')), h)
         else if output_mode \<notin> {OUTPUT_MODE_IGNORE K, OUTPUT_MODE_MERGE K,
                                   OUTPUT_MODE_REPLACE K}
         then (Inl (UnitexException (''Wrong value for the '' @ quoted ''output_mode'' @
                      '' option. UnitexConstants.OUTPUT_MODE_X required.'')), h)
         else bind (UnitexProcessor_locate K E self grammar match_mode output_mode h)
                (\<lambda>index h1.
                   if xml = False
                   then bind (UnitexProcessor_concord K E self index True (Some output) h1)
                          (\<lambda>_ h2.
                             (let (ex, h3) = exists K E output h2
                              in if ex = False
                                 then (Inl (UnitexException ''No tagged file produced!''), h3)
                                 else (Inr True, h3)))
                   else tag_xml K E self grammar output index h1))"

section \<open>Example inputs\<close>

text \<open>
  Concrete constants, a configuration and an engine, used where a statement is
  evaluated on an input. In the example engine every call succeeds, a listing of a
  virtual path holds that path, every loader returns the handle \<open>H\<close>, every file has
  the given text, and a path exists on the disk once \<open>locate\<close> or \<open>concord\<close> has run.
\<close>

definition example_constants :: unitex_constants where
  "example_constants =
     \<lparr>VFS_PREFIX = ''$:'',
      MATCH_MODE_LONGEST = ''longest'', MATCH_MODE_SHORTEST = ''shortest'',
      OUTPUT_MODE_IGNORE = ''ignore'', OUTPUT_MODE_MERGE = ''merge'',
      OUTPUT_MODE_REPLACE = ''replace'',
      FORMAT_MERGE = ''merge'', FORMAT_TEXT = ''text'', SORT_TEXT_ORDER = ''TO''\<rparr>"

definition example_resources :: resources where
  "example_resources =
     \<lparr>alphabet = Some ''Alphabet.txt'', alphabet_sorted = None,
      sentence = Some ''Sentence.fst2'', replace = Some ''Replace.fst2'',
      dictionaries = Some [''Dela.bin'']\<rparr>"

definition example_tools :: tools where
  "example_tools =
     \<lparr>tools_normalize = [], fst2txt_start_on_space = PyBool False,
      fst2txt_char_by_char = PyBool False, tools_tokenize = [], tools_dico = [],
      locate_morpho = PyNone, locate_start_on_space = PyBool False,
      locate_char_by_char = PyBool False, locate_korean = PyBool False,
      locate_arabic_rules = PyNone, locate_negation_operator = PyStr ''tilde'',
      locate_stop_token_count = PyNone, locate_protect_dic_chars = PyBool False,
      locate_variable = PyNone, locate_variable_error = PyStr ''ignore'',
      concord_thai = PyBool False\<rparr>"

definition example_config :: "bool \<Rightarrow> bool \<Rightarrow> config" where
  "example_config pers virt =
     \<lparr>persistence = pers, virtualization = virt,
      resources = example_resources, tools = example_tools\<rparr>"

fun produced :: "call \<Rightarrow> bool" where
  "produced (Locate g s a k) = True"
| "produced (Concord i a k) = True"
| "produced c = False"

definition example_env :: "string \<Rightarrow> env" where
  "example_env text =
     \<lparr>answer = (\<lambda>h c. case c of Os_path_exists p \<Rightarrow> list_ex produced h | _ \<Rightarrow> True),
      listing = (\<lambda>h p. [p]),
      contents = (\<lambda>h c. text),
      handle = (\<lambda>h c. ''H'')\<rparr>"

definition example_processor :: "bool \<Rightarrow> bool \<Rightarrow> UnitexProcessor" where
  "example_processor pers virt =
     fst (UnitexProcessor_init (example_env []) (example_config pers virt) [])"

definition example_opened :: "bool \<Rightarrow> unit result \<times> UnitexProcessor \<times> call list" where
  "example_opened virt =
     UnitexProcessor_open example_constants (example_env []) ''corpus/foo.txt'' ''srtl'' False
       (example_processor False virt, [])"

section \<open>The index file format\<close>







section \<open>Properties\<close>

subsection \<open>Sequencing and the calls of the loops\<close>

lemma bind_Inl [simp]: "bind (Inl e, s) f = (Inl e, s)"
  by (simp add: bind_def)

lemma bind_Inr [simp]: "bind (Inr x, s) f = f x s"
  by (simp add: bind_def)

lemma rm_each_calls: "rm_each E vfs h = h @ map Unitex_rm vfs"
  unfolding rm_each_def
  by (induction vfs arbitrary: h) (simp_all add: rm_def external_def)

lemma free_loop_calls: "foldl (\<lambda>h x. h @ [free_call x]) h objs = h @ map free_call objs"
  by (induction objs arbitrary: h) simp_all

subsection \<open>The file gateway\<close>

text \<open>
  C6. For a path that starts with the virtual prefix, \<open>exists\<close> returns whether the path
  is a member of the list returned by \<open>ls\<close> for that path, and \<open>ls\<close> is the only call it
  makes; for every other path it returns what the disk existence check returns, and
  that check is its only call.
\<close>

theorem exists_virtual_or_disk:
  "(startswith p (VFS_PREFIX K) \<longrightarrow>
      fst (exists K E p h) = (p \<in> set (fst (ls E p h))) \<and>
      snd (exists K E p h) = h @ [Unitex_ls p]) \<and>
   (\<not> startswith p (VFS_PREFIX K) \<longrightarrow>
      exists K E p h = os_path_exists E p h \<and>
      snd (exists K E p h) = h @ [Os_path_exists p])"
  by (simp add: exists_def ls_def os_path_exists_def external_def)

theorem exists_virtual_or_disk_witness:
  "startswith ''$:corpus/foo.snt'' (VFS_PREFIX example_constants) \<and>
   fst (exists example_constants (example_env []) ''$:corpus/foo.snt'' []) =
     (''$:corpus/foo.snt'' \<in> set (fst (ls (example_env []) ''$:corpus/foo.snt'' []))) \<and>
   \<not> startswith ''corpus/foo.snt'' (VFS_PREFIX example_constants) \<and>
   exists example_constants (example_env []) ''corpus/foo.snt'' [] =
     os_path_exists (example_env []) ''corpus/foo.snt'' []"
  using exists_virtual_or_disk [of "''$:corpus/foo.snt''" example_constants "example_env []" "[]"]
        exists_virtual_or_disk [of "''corpus/foo.snt''" example_constants "example_env []" "[]"]
  by (simp add: startswith_def example_constants_def)

text \<open>
  C7. A handle that holds a path refuses \<open>open\<close> with a usage error, so a second \<open>open\<close>
  after a successful one fails; \<open>write\<close> on a handle whose mode is neither \<open>w\<close> nor \<open>a\<close>
  and \<open>read\<close> on a handle whose mode is neither \<open>r\<close> nor \<open>b\<close> raise a usage error, and
  make no call.
\<close>

theorem UnitexFile_usage_errors:
  "(file_path f \<noteq> None \<longrightarrow>
      (\<exists>msg. UnitexFile_open f file mode use_bom = Inl (UnitexException msg))) \<and>
   (UnitexFile_open f file mode use_bom = Inr f' \<longrightarrow>
      (\<exists>msg. UnitexFile_open f' file2 mode2 use_bom2 = Inl (UnitexException msg))) \<and>
   (file_mode f \<notin> {Some ''w'', Some ''a''} \<longrightarrow>
      (\<exists>msg. UnitexFile_write f data h = (Inl (UnitexException msg), h))) \<and>
   (file_mode f \<notin> {Some ''r'', Some ''b''} \<longrightarrow>
      (\<exists>msg. UnitexFile_read E f h = (Inl (UnitexException msg), h)))"
  by (auto simp: UnitexFile_open_def UnitexFile_write_def UnitexFile_read_def
           split: option.splits)

theorem UnitexFile_usage_errors_witness:
  "file_path \<lparr>file_use_bom = Some False, file_path = Some ''a.txt'', file_mode = Some ''r''\<rparr>
     \<noteq> None \<and>
   UnitexFile_open UnitexFile_init ''a.txt'' (Some ''r'') False =
     Inr \<lparr>file_use_bom = Some False, file_path = Some ''a.txt'', file_mode = Some ''r''\<rparr> \<and>
   (\<exists>msg. UnitexFile_open
            \<lparr>file_use_bom = Some False, file_path = Some ''a.txt'', file_mode = Some ''r''\<rparr>
            ''b.txt'' None False = Inl (UnitexException msg)) \<and>
   file_mode \<lparr>file_use_bom = Some False, file_path = Some ''a.txt'', file_mode = Some ''r''\<rparr>
     \<notin> {Some ''w'', Some ''a''} \<and>
   (\<exists>msg. UnitexFile_write
            \<lparr>file_use_bom = Some False, file_path = Some ''a.txt'', file_mode = Some ''r''\<rparr>
            ''data'' [] = (Inl (UnitexException msg), [])) \<and>
   file_mode \<lparr>file_use_bom = Some False, file_path = Some ''a.txt'', file_mode = Some ''w''\<rparr>
     \<notin> {Some ''r'', Some ''b''} \<and>
   (\<exists>msg. UnitexFile_read (example_env [])
            \<lparr>file_use_bom = Some False, file_path = Some ''a.txt'', file_mode = Some ''w''\<rparr>
            [] = (Inl (UnitexException msg), []))"
  using UnitexFile_usage_errors
          [of "\<lparr>file_use_bom = Some False, file_path = Some ''a.txt'', file_mode = Some ''r''\<rparr>"
              "''b.txt''" None False
              "\<lparr>file_use_bom = Some False, file_path = Some ''a.txt'', file_mode = Some ''r''\<rparr>"
              "''b.txt''" None False "''data''" "[]" "example_env []"]
        UnitexFile_usage_errors
          [of "\<lparr>file_use_bom = Some False, file_path = Some ''a.txt'', file_mode = Some ''w''\<rparr>"
              "''b.txt''" None False
              "\<lparr>file_use_bom = Some False, file_path = Some ''a.txt'', file_mode = Some ''w''\<rparr>"
              "''b.txt''" None False "''data''" "[]" "example_env []"]
        UnitexFile_usage_errors
          [of UnitexFile_init "''a.txt''" "Some ''r''" False
              "\<lparr>file_use_bom = Some False, file_path = Some ''a.txt'', file_mode = Some ''r''\<rparr>"
              "''b.txt''" None False "''data''" "[]" "example_env []"]
  by (simp add: UnitexFile_init_def UnitexFile_open_def)

subsection \<open>The processor\<close>

lemma free_calls:
  "UnitexProcessor_free self h =
     h @ map free_call (case self_persisted_objects self of None \<Rightarrow> [] | Some objs \<Rightarrow> objs)"
  by (simp add: UnitexProcessor_free_def free_loop_calls split: option.splits)

lemma example_paths:
  "derive_snt ''corpus/foo.txt'' = ''corpus/foo.snt''"
  "derive_dir ''corpus/foo.txt'' = ''corpus/foo_snt''"
  by code_simp+

text \<open>
  C5. When the match mode is not one of longest and shortest, or the output mode is
  not one of ignore, merge and replace, \<open>_locate\<close>, \<open>iter\<close> and \<open>tag\<close> raise a
  \<open>UnitexException\<close> and the list of calls is unchanged: no tool, no file operation has
  been called.
\<close>

theorem locate_rejects_unknown_modes:
  assumes "match_mode \<notin> {MATCH_MODE_LONGEST K, MATCH_MODE_SHORTEST K} \<or>
           output_mode \<notin> {OUTPUT_MODE_IGNORE K, OUTPUT_MODE_MERGE K, OUTPUT_MODE_REPLACE K}"
  shows "(\<exists>msg. UnitexProcessor_locate K E self grammar match_mode output_mode h =
                  (Inl (UnitexException msg), h)) \<and>
         (\<exists>msg. UnitexProcessor_iter K E self grammar (Some match_mode) (Some output_mode) h =
                  (([], Some (UnitexException msg)), h)) \<and>
         (\<exists>msg. UnitexProcessor_tag K E self grammar output xml (Some match_mode)
                   (Some output_mode) h = (Inl (UnitexException msg), h))"
proof (intro conjI)
  show "\<exists>msg. UnitexProcessor_locate K E self grammar match_mode output_mode h =
                  (Inl (UnitexException msg), h)"
    using assms by (auto simp: UnitexProcessor_locate_def split: option.splits)
  show "\<exists>msg. UnitexProcessor_iter K E self grammar (Some match_mode) (Some output_mode) h =
                  (([], Some (UnitexException msg)), h)"
    using assms by (auto simp: UnitexProcessor_iter_def)
  show "\<exists>msg. UnitexProcessor_tag K E self grammar output xml (Some match_mode)
                   (Some output_mode) h = (Inl (UnitexException msg), h)"
    using assms by (auto simp: UnitexProcessor_tag_def)
qed

theorem locate_rejects_unknown_modes_witness:
  "''greedy'' \<notin> {MATCH_MODE_LONGEST example_constants, MATCH_MODE_SHORTEST example_constants} \<and>
   (\<exists>msg. UnitexProcessor_locate example_constants (example_env []) (example_processor False False)
             ''g.fst2'' ''greedy'' ''merge'' [] = (Inl (UnitexException msg), [])) \<and>
   (\<exists>msg. UnitexProcessor_iter example_constants (example_env []) (example_processor False False)
             ''g.fst2'' (Some ''greedy'') (Some ''merge'') [] = (([], Some (UnitexException msg)), [])) \<and>
   (\<exists>msg. UnitexProcessor_tag example_constants (example_env []) (example_processor False False)
             ''g.fst2'' ''out.txt'' True (Some ''greedy'') (Some ''merge'') [] =
             (Inl (UnitexException msg), []))"
  using locate_rejects_unknown_modes
          [of "''greedy''" example_constants "''merge''" "example_env []"
              "example_processor False False" "''g.fst2''" "[]" "''out.txt''" True]
  by (simp add: example_constants_def)

lemma stage_paths_fields:
  assumes "stage_paths K E p (self0, h0) = (self, h)"
  shows "self_config self = self_config self0"
    and "self_persisted_objects self = self_persisted_objects self0"
    and "self_dir self = Some (derive_dir p)"
    and "self_txt self =
           Some (if virtualization (self_config self0) then VFS_PREFIX K @ p else p)"
    and "self_snt self =
           Some (if virtualization (self_config self0) then VFS_PREFIX K @ derive_snt p
                 else derive_snt p)"
  using assms
  by (auto simp: stage_paths_def Let_def split: prod.splits if_splits)

lemma open_stage_paths:
  assumes "UnitexProcessor_open K E p mode tagged (self0, h0) = (r, self, h)"
  shows "\<exists>h1. stage_paths K E p (self0, h0) = (self, h1)"
  using assms
  by (auto simp: UnitexProcessor_open_def Let_def split: prod.splits)

lemma clean_virtual:
  assumes "virtualization (self_config self)" "self_txt self = Some t" "self_snt self = Some s"
    "self_dir self = Some d"
  shows "UnitexProcessor_clean K E self h =
           (Inr (), h @ [Unitex_ls (VFS_PREFIX K @ d)] @
                    map Unitex_rm (listing E h (VFS_PREFIX K @ d)) @
                    [Unitex_rm s, Unitex_rm t, Unitex_rmdir d])"
  using assms
  by (simp add: UnitexProcessor_clean_def ls_def rm_each_calls rm_field_def rmdir_field_def
        rm_def rmdir_def external_def)

lemma clean_disk:
  assumes "\<not> virtualization (self_config self)" "self_txt self = Some t" "self_snt self = Some s"
    "self_dir self = Some d"
  shows "UnitexProcessor_clean K E self h = (Inr (), h @ [Unitex_rm s, Unitex_rmdir d])"
  using assms
  by (simp add: UnitexProcessor_clean_def rm_field_def rmdir_field_def
        rm_def rmdir_def external_def)

text \<open>
  C8. After \<open>open\<close> (whatever its outcome) \<open>close(clean=True)\<close> succeeds and makes these
  calls, in this order. With virtualization: \<open>ls\<close> of the prefixed working directory,
  \<open>rm\<close> of every entry listed, \<open>rm\<close> of the prefixed normalized file, \<open>rm\<close> of the
  prefixed original file, \<open>rmdir\<close> of the working directory. Without virtualization:
  \<open>rm\<close> of the normalized file, \<open>rmdir\<close> of the working directory.
\<close>

theorem close_clean_removal_order:
  assumes "UnitexProcessor_open K E p mode tagged (self0, h0) = (r, self, h)"
  shows "(virtualization (self_config self0) \<longrightarrow>
            UnitexProcessor_close K E True False (self, h) =
              (Inr (), self\<lparr>self_txt := None, self_snt := None, self_dir := None\<rparr>,
               h @ [Unitex_ls (VFS_PREFIX K @ derive_dir p)] @
                   map Unitex_rm (listing E h (VFS_PREFIX K @ derive_dir p)) @
                   [Unitex_rm (VFS_PREFIX K @ derive_snt p),
                    Unitex_rm (VFS_PREFIX K @ p),
                    Unitex_rmdir (derive_dir p)])) \<and>
         (\<not> virtualization (self_config self0) \<longrightarrow>
            UnitexProcessor_close K E True False (self, h) =
              (Inr (), self\<lparr>self_txt := None, self_snt := None, self_dir := None\<rparr>,
               h @ [Unitex_rm (derive_snt p), Unitex_rmdir (derive_dir p)]))"
proof -
  obtain h1 where st: "stage_paths K E p (self0, h0) = (self, h1)"
    using open_stage_paths [OF assms] by blast
  note f = stage_paths_fields [OF st]
  show ?thesis
  proof (cases "virtualization (self_config self0)")
    case True
    then have "UnitexProcessor_clean K E self h =
           (Inr (), h @ [Unitex_ls (VFS_PREFIX K @ derive_dir p)] @
                    map Unitex_rm (listing E h (VFS_PREFIX K @ derive_dir p)) @
                    [Unitex_rm (VFS_PREFIX K @ derive_snt p), Unitex_rm (VFS_PREFIX K @ p),
                     Unitex_rmdir (derive_dir p)])"
      using f by (intro clean_virtual) simp_all
    with True show ?thesis by (simp add: UnitexProcessor_close_def)
  next
    case False
    then have "UnitexProcessor_clean K E self h =
           (Inr (), h @ [Unitex_rm (derive_snt p), Unitex_rmdir (derive_dir p)])"
      using f by (intro clean_disk) simp_all
    with False show ?thesis by (simp add: UnitexProcessor_close_def)
  qed
qed

theorem close_clean_removal_order_witness:
  "virtualization (self_config (example_processor False True)) \<and>
   UnitexProcessor_close example_constants (example_env []) True False
     (snd (UnitexProcessor_open example_constants (example_env []) ''corpus/foo.txt'' ''srtl'' False
        (example_processor False True, []))) =
     (Inr (),
      (fst (snd (UnitexProcessor_open example_constants (example_env []) ''corpus/foo.txt''
         ''srtl'' False (example_processor False True, []))))
        \<lparr>self_txt := None, self_snt := None, self_dir := None\<rparr>,
      snd (snd (UnitexProcessor_open example_constants (example_env []) ''corpus/foo.txt''
         ''srtl'' False (example_processor False True, []))) @
      [Unitex_ls ''$:corpus/foo_snt'', Unitex_rm ''$:corpus/foo_snt'',
       Unitex_rm ''$:corpus/foo.snt'', Unitex_rm ''$:corpus/foo.txt'',
       Unitex_rmdir ''corpus/foo_snt'']) \<and>
   \<not> virtualization (self_config (example_processor False False)) \<and>
   UnitexProcessor_close example_constants (example_env []) True False
     (snd (UnitexProcessor_open example_constants (example_env []) ''corpus/foo.txt'' ''srtl'' False
        (example_processor False False, []))) =
     (Inr (),
      (fst (snd (UnitexProcessor_open example_constants (example_env []) ''corpus/foo.txt''
         ''srtl'' False (example_processor False False, []))))
        \<lparr>self_txt := None, self_snt := None, self_dir := None\<rparr>,
      snd (snd (UnitexProcessor_open example_constants (example_env []) ''corpus/foo.txt''
         ''srtl'' False (example_processor False False, []))) @
      [Unitex_rm ''corpus/foo.snt'', Unitex_rmdir ''corpus/foo_snt''])"
proof -
  have v: "virtualization (self_config (example_processor False True))"
          "\<not> virtualization (self_config (example_processor False False))"
    by code_simp+
  have e: "UnitexProcessor_open example_constants (example_env []) ''corpus/foo.txt'' ''srtl''
             False (example_processor False virt, []) =
           (fst (UnitexProcessor_open example_constants (example_env []) ''corpus/foo.txt''
                   ''srtl'' False (example_processor False virt, [])),
            fst (snd (UnitexProcessor_open example_constants (example_env []) ''corpus/foo.txt''
                   ''srtl'' False (example_processor False virt, []))),
            snd (snd (UnitexProcessor_open example_constants (example_env []) ''corpus/foo.txt''
                   ''srtl'' False (example_processor False virt, []))))" for virt
    by simp
  show ?thesis
    using close_clean_removal_order [OF e [of True]] close_clean_removal_order [OF e [of False]] v
    by (simp add: example_paths example_constants_def example_env_def)
qed

text \<open>
  C9, as amended. \<open>_free\<close> calls, for every tracked handle in the order of tracking, the
  free function of its kind (grammar, dictionary, alphabet), and it makes no call when
  nothing is tracked, in particular when persistence is disabled.
\<close>

theorem free_releases_tracked:
  "UnitexProcessor_free self h =
     h @ map free_call (case self_persisted_objects self of None \<Rightarrow> [] | Some objs \<Rightarrow> objs) \<and>
   free_call (RESOURCE_GRAMMAR, obj) = Free_persistent_fst2 obj \<and>
   free_call (RESOURCE_DICTIONARY, obj) = Free_persistent_dictionary obj \<and>
   free_call (RESOURCE_ALPHABET, obj) = Free_persistent_alphabet obj \<and>
   (self_persisted_objects self \<in> {None, Some []} \<longrightarrow> UnitexProcessor_free self h = h) \<and>
   (persistence cfg = False \<longrightarrow>
      self_persisted_objects (fst (UnitexProcessor_init E cfg h)) = None \<and>
      UnitexProcessor_free (fst (UnitexProcessor_init E cfg h)) h' = h')"
  by (auto simp: free_calls free_call_def UnitexProcessor_init_def UnitexProcessor_load_def)

theorem free_releases_tracked_witness:
  "self_persisted_objects (example_processor False False) \<in> {None, Some []} \<and>
   UnitexProcessor_free (example_processor False False) [] = [] \<and>
   persistence (example_config False False) = False \<and>
   self_persisted_objects
     (fst (UnitexProcessor_init (example_env []) (example_config False False) [])) = None \<and>
   UnitexProcessor_free (example_processor True False) [] =
     [Free_persistent_alphabet ''H'', Free_persistent_fst2 ''H'', Free_persistent_fst2 ''H'',
      Free_persistent_dictionary ''H'']"
proof -
  have p: "self_persisted_objects (example_processor False False) = None"
          "self_persisted_objects (example_processor True False) =
             Some [(RESOURCE_ALPHABET, ''H''), (RESOURCE_GRAMMAR, ''H''),
                   (RESOURCE_GRAMMAR, ''H''), (RESOURCE_DICTIONARY, ''H'')]"
          "persistence (example_config False False) = False"
    by code_simp+
  show ?thesis
    using free_releases_tracked [of "example_processor False False" "[]" "''H''"
            "example_config False False" "example_env []" "[]"]
          free_releases_tracked [of "example_processor True False" "[]" "''H''"
            "example_config False False" "example_env []" "[]"]
          p
    by simp
qed

text \<open>
  C9 as stated fails: \<open>_free\<close> does not clear the tracked handles, so a second \<open>_free\<close>
  calls the free functions again. With the example resources persisted, two calls of
  \<open>_free\<close> leave other calls behind than one.
\<close>

theorem free_twice_counterexample:
  "UnitexProcessor_free (example_processor True False)
     (UnitexProcessor_free (example_processor True False) []) \<noteq>
   UnitexProcessor_free (example_processor True False) []"
  by code_simp

text \<open>
  C3, as amended. \<open>open\<close> does not read the session fields: called on a processor with
  a corpus open it does exactly what it does on the same processor with no corpus
  open, and the new path becomes the text of the session.
\<close>

theorem open_ignores_session:
  "UnitexProcessor_open K E p mode tagged
     (self\<lparr>self_txt := t, self_snt := s, self_dir := d\<rparr>, h) =
   UnitexProcessor_open K E p mode tagged
     (self\<lparr>self_txt := None, self_snt := None, self_dir := None\<rparr>, h) \<and>
   self_txt (fst (snd (UnitexProcessor_open K E p mode tagged
     (self\<lparr>self_txt := t, self_snt := s, self_dir := d\<rparr>, h)))) =
     Some (if virtualization (self_config self) then VFS_PREFIX K @ p else p)"
  by (simp add: UnitexProcessor_open_def stage_paths_def Let_def split: prod.splits)

text \<open>
  C3 as stated fails: the second \<open>open\<close> of two in a row, with no \<open>close\<close> between,
  returns without an exception and stages the second corpus.
\<close>

theorem reopen_counterexample:
  "fst (UnitexProcessor_open example_constants (example_env []) ''corpus/bar.txt'' ''srtl'' False
         (snd (UnitexProcessor_open example_constants (example_env []) ''corpus/foo.txt'' ''srtl''
                 False (example_processor False False, [])))) = Inr () \<and>
   self_txt (fst (snd (UnitexProcessor_open example_constants (example_env []) ''corpus/bar.txt''
         ''srtl'' False
         (snd (UnitexProcessor_open example_constants (example_env []) ''corpus/foo.txt'' ''srtl''
                 False (example_processor False False, [])))))) = Some ''corpus/bar.txt''"
  by code_simp

lemma read_all_eq:
  "read_all E p h = (Inr (contents E h (Unitex_read_file p)), h @ [Unitex_read_file p])"
  by (simp add: read_all_def UnitexFile_open_def UnitexFile_init_def UnitexFile_read_def
        UnitexFile_close_def)

lemma tag_xml_success:
  assumes "tag_xml K E self grammar output index h = (Inr r, h')"
  shows "\<exists>tmp h2. workdir_file K self ''concord-merge-temp.txt'' = Inr tmp \<and> r = True \<and>
           h' = h2 @ [Io_open output ''w'',
                      Io_write output xml_declaration,
                      Io_write output (tagfile_open grammar),
                      Unitex_read_file tmp,
                      Io_write output
                        (escape (contents E (h2 @ [Io_open output ''w'',
                                                   Io_write output xml_declaration,
                                                   Io_write output (tagfile_open grammar)])
                                  (Unitex_read_file tmp))),
                      Io_write output tagfile_close,
                      Io_close output,
                      Unitex_rm tmp]"
proof (cases "workdir_file K self ''concord-merge-temp.txt''")
  case (Inl e)
  with assms show ?thesis by (simp add: tag_xml_def)
next
  case (Inr tmp)
  obtain c h1 where c: "UnitexProcessor_concord K E self index True (Some tmp) h = (c, h1)"
    by (cases "UnitexProcessor_concord K E self index True (Some tmp) h")
  obtain ex h2 where x: "exists K E tmp h1 = (ex, h2)"
    by (cases "exists K E tmp h1")
  from assms Inr c x show ?thesis
    by (cases c; cases ex)
       (auto simp: tag_xml_def read_all_eq rm_def external_def)
qed

lemma tag_reaches_xml:
  assumes "UnitexProcessor_tag K E self grammar output True mm om h = (Inr r, h')"
  shows "\<exists>index h1. tag_xml K E self grammar output index h1 = (Inr r, h')"
proof -
  let ?m = "case mm of None \<Rightarrow> MATCH_MODE_LONGEST K | Some m \<Rightarrow> m"
  let ?o = "case om of None \<Rightarrow> OUTPUT_MODE_MERGE K | Some m \<Rightarrow> m"
  obtain l h1 where l: "UnitexProcessor_locate K E self grammar ?m ?o h = (l, h1)"
    by (cases "UnitexProcessor_locate K E self grammar ?m ?o h")
  from assms l show ?thesis
    by (cases l) (auto simp: UnitexProcessor_tag_def Let_def split: if_splits)
qed

lemma escape_eq:
  "escape body = concat (map (\<lambda>c. if c = CHR ''&'' then ''&amp;'' else [c]) body)"
  by (simp add: escape_def RULES_def re_sub_def)

text \<open>
  C4. When \<open>tag\<close> with \<open>xml=True\<close> returns, it returns \<open>True\<close> and its last calls are, in
  this order: the output file is opened for writing; the declaration
  \<open><?xml version='1.0' encoding='UTF-8'?>\<close> and a line feed are written; then
  \<open><TAGFILE query='grammar'>\<close> with the grammar path as given and a line feed; the
  temporary merge file \<open>concord-merge-temp.txt\<close> of the working directory is read; its
  text is written with every \<open>&\<close> replaced by \<open>&amp;\<close> and every other character kept;
  \<open></TAGFILE>\<close> and a line feed are written; the output is closed; the temporary file
  is removed. The body \<open>A & B\<close> is written as \<open>A &amp; B\<close>.
\<close>

theorem tag_xml_output:
  assumes "UnitexProcessor_tag K E self grammar output True mm om h = (Inr r, h')"
  shows "(\<exists>d tmp h2.
            self_dir self = Some d \<and>
            tmp = (if virtualization (self_config self)
                   then VFS_PREFIX K @ os_path_join d ''concord-merge-temp.txt''
                   else os_path_join d ''concord-merge-temp.txt'') \<and>
            r = True \<and>
            h' = h2 @ [Io_open output ''w'',
                       Io_write output xml_declaration,
                       Io_write output (tagfile_open grammar),
                       Unitex_read_file tmp,
                       Io_write output
                         (escape (contents E (h2 @ [Io_open output ''w'',
                                                    Io_write output xml_declaration,
                                                    Io_write output (tagfile_open grammar)])
                                   (Unitex_read_file tmp))),
                       Io_write output tagfile_close,
                       Io_close output,
                       Unitex_rm tmp]) \<and>
         xml_declaration =
           ''<?xml version='' @ [CHR 0x27] @ ''1.0'' @ [CHR 0x27] @ '' encoding='' @
           [CHR 0x27] @ ''UTF-8'' @ [CHR 0x27] @ ''?>'' @ [CHR 0x0A] \<and>
         tagfile_open grammar =
           ''<TAGFILE query='' @ [CHR 0x27] @ grammar @ [CHR 0x27] @ ''>'' @ [CHR 0x0A] \<and>
         tagfile_close = ''</TAGFILE>'' @ [CHR 0x0A] \<and>
         (\<forall>body. escape body =
                   concat (map (\<lambda>c. if c = CHR ''&'' then ''&amp;'' else [c]) body)) \<and>
         escape ''A & B'' = ''A &amp; B''"
proof -
  obtain index h1 where "tag_xml K E self grammar output index h1 = (Inr r, h')"
    using tag_reaches_xml [OF assms] by blast
  from tag_xml_success [OF this]
  obtain tmp h2 where w: "workdir_file K self ''concord-merge-temp.txt'' = Inr tmp"
    and r: "r = True"
    and h: "h' = h2 @ [Io_open output ''w'',
                       Io_write output xml_declaration,
                       Io_write output (tagfile_open grammar),
                       Unitex_read_file tmp,
                       Io_write output
                         (escape (contents E (h2 @ [Io_open output ''w'',
                                                    Io_write output xml_declaration,
                                                    Io_write output (tagfile_open grammar)])
                                   (Unitex_read_file tmp))),
                       Io_write output tagfile_close,
                       Io_close output,
                       Unitex_rm tmp]"
    by blast
  from w obtain d where d: "self_dir self = Some d"
    and t: "tmp = (if virtualization (self_config self)
                   then VFS_PREFIX K @ os_path_join d ''concord-merge-temp.txt''
                   else os_path_join d ''concord-merge-temp.txt'')"
    by (auto simp: workdir_file_def Let_def split: option.splits)
  have 1: "\<exists>d tmp h2.
            self_dir self = Some d \<and>
            tmp = (if virtualization (self_config self)
                   then VFS_PREFIX K @ os_path_join d ''concord-merge-temp.txt''
                   else os_path_join d ''concord-merge-temp.txt'') \<and>
            r = True \<and>
            h' = h2 @ [Io_open output ''w'',
                       Io_write output xml_declaration,
                       Io_write output (tagfile_open grammar),
                       Unitex_read_file tmp,
                       Io_write output
                         (escape (contents E (h2 @ [Io_open output ''w'',
                                                    Io_write output xml_declaration,
                                                    Io_write output (tagfile_open grammar)])
                                   (Unitex_read_file tmp))),
                       Io_write output tagfile_close,
                       Io_close output,
                       Unitex_rm tmp]"
    using d t r h by blast
  have 2: "escape ''A & B'' = ''A &amp; B''"
    by (simp add: escape_eq)
  show ?thesis
    using 1 2
    by (simp add: xml_declaration_def tagfile_open_def tagfile_close_def quoted_def escape_eq)
qed

theorem tag_xml_output_witness:
  "fst (UnitexProcessor_tag example_constants (example_env ''A & B'')
          (fst (snd (example_opened False))) ''g.fst2'' ''out.xml'' True None None []) = Inr True \<and>
   (\<exists>h2. snd (UnitexProcessor_tag example_constants (example_env ''A & B'')
                (fst (snd (example_opened False))) ''g.fst2'' ''out.xml'' True None None []) =
          h2 @ [Io_open ''out.xml'' ''w'',
                Io_write ''out.xml'' xml_declaration,
                Io_write ''out.xml'' (tagfile_open ''g.fst2''),
                Unitex_read_file ''corpus/foo_snt/concord-merge-temp.txt'',
                Io_write ''out.xml'' ''A &amp; B'',
                Io_write ''out.xml'' tagfile_close,
                Io_close ''out.xml'',
                Unitex_rm ''corpus/foo_snt/concord-merge-temp.txt''])"
proof -
  let ?t = "UnitexProcessor_tag example_constants (example_env ''A & B'')
          (fst (snd (example_opened False))) ''g.fst2'' ''out.xml'' True None None []"
  have f: "fst ?t = Inr True"
    by code_simp
  then have e: "?t = (Inr True, snd ?t)"
    by (metis prod.collapse)
  have d: "self_dir (fst (snd (example_opened False))) = Some ''corpus/foo_snt''"
          "virtualization (self_config (fst (snd (example_opened False)))) = False"
          "os_path_join ''corpus/foo_snt'' ''concord-merge-temp.txt'' =
             ''corpus/foo_snt/concord-merge-temp.txt''"
    by code_simp+
  have c: "contents (example_env ''A & B'') hh cc = ''A & B''" for hh cc
    by (simp add: example_env_def)
  from tag_xml_output [OF e]
  obtain dd tmp h2 where dd: "self_dir (fst (snd (example_opened False))) = Some dd"
    and tmp: "tmp = (if virtualization (self_config (fst (snd (example_opened False))))
                     then VFS_PREFIX example_constants @ os_path_join dd ''concord-merge-temp.txt''
                     else os_path_join dd ''concord-merge-temp.txt'')"
    and h: "snd ?t = h2 @ [Io_open ''out.xml'' ''w'',
                       Io_write ''out.xml'' xml_declaration,
                       Io_write ''out.xml'' (tagfile_open ''g.fst2''),
                       Unitex_read_file tmp,
                       Io_write ''out.xml''
                         (escape (contents (example_env ''A & B'')
                                   (h2 @ [Io_open ''out.xml'' ''w'',
                                          Io_write ''out.xml'' xml_declaration,
                                          Io_write ''out.xml'' (tagfile_open ''g.fst2'')])
                                   (Unitex_read_file tmp))),
                       Io_write ''out.xml'' tagfile_close,
                       Io_close ''out.xml'',
                       Unitex_rm tmp]"
    and esc: "escape ''A & B'' = ''A &amp; B''"
    by blast
  from dd tmp d have "tmp = ''corpus/foo_snt/concord-merge-temp.txt''"
    by simp
  with h esc c f show ?thesis
    by simp
qed

subsection \<open>Paths\<close>

lemma startswith_prefix: "startswith s p = prefix p s"
  unfolding startswith_def
  by (metis append_take_drop_id prefix_def append_eq_conv_conj)

lemma endswith_slash: "endswith a ''/'' = (a \<noteq> [] \<and> last a = CHR ''/'')"
proof (cases a rule: rev_cases)
  case Nil
  then show ?thesis by (simp add: endswith_def)
next
  case (snoc ys y)
  then show ?thesis by (auto simp: endswith_def)
qed

lemma split_at_last:
  "take (nat (rfind p c + 1)) p = rev (dropWhile (\<lambda>x. x \<noteq> c) (rev p)) \<and>
   drop (nat (rfind p c + 1)) p = rev (takeWhile (\<lambda>x. x \<noteq> c) (rev p))"
proof -
  define tw where "tw = takeWhile (\<lambda>x. x \<noteq> c) (rev p)"
  define dw where "dw = dropWhile (\<lambda>x. x \<noteq> c) (rev p)"
  have "rev p = tw @ dw"
    by (simp add: tw_def dw_def)
  then have p: "p = rev dw @ rev tw"
    by (metis rev_append rev_rev_ident)
  have i: "nat (rfind p c + 1) = length (rev dw)"
  proof (cases "c \<in> set p")
    case True
    have "length p = length dw + length tw"
      using p by (metis length_append length_rev)
    then show ?thesis
      using True by (simp add: rfind_def tw_def [symmetric])
  next
    case False
    then have "dw = []"
      by (auto simp: dw_def)
    then show ?thesis
      using False by (simp add: rfind_def)
  qed
  have t: "take (length (rev dw)) p = rev dw"
    by (subst p) simp
  have d: "drop (length (rev dw)) p = rev tw"
    by (subst p) simp
  show ?thesis
    unfolding i using t d unfolding tw_def dw_def by simp
qed

lemma os_path_split_eq:
  "os_path_split p =
     (let h0 = rev (dropWhile (\<lambda>x. x \<noteq> CHR ''/'') (rev p))
      in (if h0 \<noteq> [] \<and> h0 \<noteq> replicate (length h0) (CHR ''/'')
          then rstrip_char (CHR ''/'') h0 else h0,
          rev (takeWhile (\<lambda>x. x \<noteq> CHR ''/'') (rev p))))"
proof -
  have a: "take (nat (rfind p (CHR ''/'') + 1)) p =
             rev (dropWhile (\<lambda>x. x \<noteq> CHR ''/'') (rev p))"
    and b: "drop (nat (rfind p (CHR ''/'') + 1)) p =
             rev (takeWhile (\<lambda>x. x \<noteq> CHR ''/'') (rev p))"
    using split_at_last [of p "CHR ''/''"] by blast+
  show ?thesis
    unfolding os_path_split_def Let_def a b by (rule refl)
qed

lemma takeWhile_until: "c \<notin> set t \<Longrightarrow> takeWhile (\<lambda>x. x \<noteq> c) (t @ c # d) = t"
  by (induction t) auto

lemma dropWhile_until: "c \<notin> set t \<Longrightarrow> dropWhile (\<lambda>x. x \<noteq> c) (t @ c # d) = c # d"
  by (induction t) auto

lemma rfind_last: "c \<notin> set t \<Longrightarrow> rfind (d @ c # t) c = int (length d)"
  using takeWhile_until [of c "rev t" "rev d"] by (simp add: rfind_def)

lemma rfind_none: "c \<notin> set s \<Longrightarrow> rfind s c = - 1"
  by (simp add: rfind_def)

lemma splitext_name_ext:
  assumes "CHR ''/'' \<notin> set n" "CHR ''/'' \<notin> set e" "CHR ''.'' \<notin> set e"
    "\<exists>c\<in>set n. c \<noteq> CHR ''.''"
  shows "os_path_splitext (n @ CHR ''.'' # e) = (n, CHR ''.'' # e)"
proof -
  have "rfind (n @ CHR ''.'' # e) (CHR ''/'') = - 1"
    using assms by (intro rfind_none) simp
  moreover have "rfind (n @ CHR ''.'' # e) (CHR ''.'') = int (length n)"
    using assms by (intro rfind_last) simp
  ultimately show ?thesis
    using assms by (simp add: os_path_splitext_def list_ex_iff)
qed

lemma all_slashes_snoc:
  "(d @ [c] = replicate (length (d @ [c])) c) = (d = replicate (length d) c)"
proof -
  have "replicate (length (d @ [c])) c = replicate (length d) c @ [c]"
    by (simp add: replicate_append_same)
  then show ?thesis
    by simp
qed

lemma split_dir_file:
  assumes "CHR ''/'' \<notin> set f"
  shows "os_path_split (d @ CHR ''/'' # f) =
           (if d = replicate (length d) (CHR ''/'') then d @ ''/''
            else rstrip_char (CHR ''/'') d, f)"
proof -
  have t: "rev (takeWhile (\<lambda>x. x \<noteq> CHR ''/'') (rev (d @ CHR ''/'' # f))) = f"
    using assms by (simp add: takeWhile_until)
  have h: "rev (dropWhile (\<lambda>x. x \<noteq> CHR ''/'') (rev (d @ CHR ''/'' # f))) = d @ ''/''"
    using assms by (simp add: dropWhile_until)
  have r: "rstrip_char (CHR ''/'') (d @ ''/'') = rstrip_char (CHR ''/'') d"
    by (simp add: rstrip_char_def)
  show ?thesis
    unfolding os_path_split_eq Let_def h t all_slashes_snoc r by simp
qed

lemma no_leading_slash:
  assumes "CHR ''/'' \<notin> set n" "s \<noteq> []" "hd s \<noteq> CHR ''/''"
  shows "\<not> startswith (n @ s) ''/''"
  using assms by (cases n; cases s) (auto simp: startswith_def)

lemma join_dir_file:
  assumes "CHR ''/'' \<notin> set n" "s \<noteq> []" "hd s \<noteq> CHR ''/''"
    "d = replicate (length d) (CHR ''/'') \<or> last d \<noteq> CHR ''/''"
  shows "os_path_join (if d = replicate (length d) (CHR ''/'') then d @ ''/''
                       else rstrip_char (CHR ''/'') d) (n @ s) = d @ ''/'' @ n @ s"
proof (cases "d = replicate (length d) (CHR ''/'')")
  case True
  then show ?thesis
    using no_leading_slash [OF assms(1-3)] by (simp add: os_path_join_def endswith_slash)
next
  case False
  then have d: "d \<noteq> []" "last d \<noteq> CHR ''/''"
    using assms(4) by auto
  then have "dropWhile (\<lambda>x. x = CHR ''/'') (rev d) = rev d"
    by (simp add: dropWhile_eq_self_iff hd_rev)
  then have "rstrip_char (CHR ''/'') d = d"
    by (simp add: rstrip_char_def)
  then show ?thesis
    using False d no_leading_slash [OF assms(1-3)]
    by (simp add: os_path_join_def endswith_slash)
qed

lemma derive_paths_form:
  assumes "CHR ''/'' \<notin> set name" "\<exists>c\<in>set name. c \<noteq> CHR ''.''"
    "CHR ''/'' \<notin> set ext" "CHR ''.'' \<notin> set ext"
    "dir = replicate (length dir) (CHR ''/'') \<or> last dir \<noteq> CHR ''/''"
  shows "derive_snt (dir @ ''/'' @ name @ ''.'' @ ext) = dir @ ''/'' @ name @ ''.snt''"
    and "derive_dir (dir @ ''/'' @ name @ ''.'' @ ext) = dir @ ''/'' @ name @ ''_snt''"
proof -
  have s: "os_path_split (dir @ CHR ''/'' # name @ CHR ''.'' # ext) =
             (if dir = replicate (length dir) (CHR ''/'') then dir @ ''/''
              else rstrip_char (CHR ''/'') dir, name @ CHR ''.'' # ext)"
    using assms by (intro split_dir_file) simp
  note x = splitext_name_ext [OF assms(1) assms(3) assms(4) assms(2)]
  show "derive_snt (dir @ ''/'' @ name @ ''.'' @ ext) = dir @ ''/'' @ name @ ''.snt''"
    using join_dir_file [OF assms(1) _ _ assms(5), of "''.snt''"]
    by (simp add: derive_snt_def s x)
  show "derive_dir (dir @ ''/'' @ name @ ''.'' @ ext) = dir @ ''/'' @ name @ ''_snt''"
    using join_dir_file [OF assms(1) _ _ assms(5), of "''_snt''"]
    by (simp add: derive_dir_def s x)
qed

text \<open>
  C1. Let the input path be \<open>dir/name.ext\<close>, where \<open>name\<close> holds no separator and at
  least one character that is not a dot, \<open>ext\<close> holds neither a separator nor a dot,
  and \<open>dir\<close> does not end in a separator unless it consists of separators only. Then
  the lines 319 to 324 of \<open>open\<close> derive the normalized path \<open>dir/name.snt\<close> and the
  working directory \<open>dir/name_snt\<close>. \<open>open\<close> stores the working directory as derived,
  and the normalized path as derived, behind the virtual prefix when virtualization
  is enabled. For \<open>corpus/foo.txt\<close> these are \<open>corpus/foo.snt\<close> and \<open>corpus/foo_snt\<close>.
\<close>

theorem open_derives_paths:
  assumes "CHR ''/'' \<notin> set name" and "\<exists>c\<in>set name. c \<noteq> CHR ''.''"
    and "CHR ''/'' \<notin> set ext" and "CHR ''.'' \<notin> set ext"
    and "dir = replicate (length dir) (CHR ''/'') \<or> last dir \<noteq> CHR ''/''"
    and "UnitexProcessor_open K E (dir @ ''/'' @ name @ ''.'' @ ext) mode tagged (self0, h0) =
           (r, self, h)"
  shows "derive_snt (dir @ ''/'' @ name @ ''.'' @ ext) = dir @ ''/'' @ name @ ''.snt'' \<and>
         derive_dir (dir @ ''/'' @ name @ ''.'' @ ext) = dir @ ''/'' @ name @ ''_snt'' \<and>
         self_dir self = Some (dir @ ''/'' @ name @ ''_snt'') \<and>
         self_snt self =
           Some ((if virtualization (self_config self0) then VFS_PREFIX K else []) @
                 dir @ ''/'' @ name @ ''.snt'') \<and>
         self_txt self =
           Some ((if virtualization (self_config self0) then VFS_PREFIX K else []) @
                 dir @ ''/'' @ name @ ''.'' @ ext)"
proof -
  note d = derive_paths_form [OF assms(1) assms(2) assms(3) assms(4) assms(5)]
  obtain h1 where
    "stage_paths K E (dir @ ''/'' @ name @ ''.'' @ ext) (self0, h0) = (self, h1)"
    using open_stage_paths [OF assms(6)] by blast
  note f = stage_paths_fields [OF this]
  show ?thesis
    using d f(3) f(4) f(5) by simp
qed

theorem open_derives_paths_witness:
  "derive_snt ''corpus/foo.txt'' = ''corpus/foo.snt'' \<and>
   derive_dir ''corpus/foo.txt'' = ''corpus/foo_snt'' \<and>
   self_snt (fst (snd (example_opened False))) = Some ''corpus/foo.snt'' \<and>
   self_dir (fst (snd (example_opened False))) = Some ''corpus/foo_snt'' \<and>
   self_snt (fst (snd (example_opened True))) = Some ''$:corpus/foo.snt'' \<and>
   self_dir (fst (snd (example_opened True))) = Some ''corpus/foo_snt''"
proof -
  have e: "UnitexProcessor_open example_constants (example_env [])
             (''corpus'' @ ''/'' @ ''foo'' @ ''.'' @ ''txt'') ''srtl'' False
             (example_processor False virt, []) =
           (fst (example_opened virt), fst (snd (example_opened virt)),
            snd (snd (example_opened virt)))" for virt
    by (simp add: example_opened_def)
  have n: "CHR ''/'' \<notin> set ''foo''" "\<exists>c\<in>set ''foo''. c \<noteq> CHR ''.''"
    "CHR ''/'' \<notin> set ''txt''" "CHR ''.'' \<notin> set ''txt''"
    "''corpus'' = replicate (length ''corpus'') (CHR ''/'') \<or> last ''corpus'' \<noteq> CHR ''/''"
    by simp_all
  have v: "virtualization (self_config (example_processor False True))"
          "\<not> virtualization (self_config (example_processor False False))"
    by code_simp+
  show ?thesis
    using open_derives_paths [OF n e [of False]] open_derives_paths [OF n e [of True]] v
    by (simp add: example_constants_def)
qed

lemma splitext_take: "\<exists>k. fst (os_path_splitext f) = take k f"
proof (cases "fst (os_path_splitext f) = f")
  case True
  then have "fst (os_path_splitext f) = take (length f) f" by simp
  then show ?thesis ..
next
  case False
  then have "fst (os_path_splitext f) = take (nat (rfind f (CHR ''.''))) f"
    by (simp add: os_path_splitext_def Let_def split: if_splits)
  then show ?thesis ..
qed

lemma derive_dir_shape:
  "(\<exists>k. derive_dir p = take k p @ ''_snt'') \<or>
   (\<exists>d r1 r2. p = d @ CHR ''/'' # r1 \<and> derive_dir p = d @ CHR ''/'' # r2)"
proof -
  define h0 where "h0 = rev (dropWhile (\<lambda>x. x \<noteq> CHR ''/'') (rev p))"
  define f where "f = rev (takeWhile (\<lambda>x. x \<noteq> CHR ''/'') (rev p))"
  define name where "name = fst (os_path_splitext f)"
  define b where "b = name @ ''_snt''"
  have "rev p = rev f @ rev h0"
    by (simp add: h0_def f_def)
  then have p: "p = h0 @ f"
    by (metis rev_append rev_rev_ident)
  have f: "CHR ''/'' \<notin> set f"
    by (auto simp: f_def dest: set_takeWhileD)
  obtain k where k: "name = take k f"
    using splitext_take name_def by blast
  then have "CHR ''/'' \<notin> set name"
    using f by (auto dest: in_set_takeD)
  then have nb: "\<not> startswith b ''/''"
    unfolding b_def by (intro no_leading_slash) simp_all
  have dd: "derive_dir p =
              os_path_join (if h0 \<noteq> [] \<and> h0 \<noteq> replicate (length h0) (CHR ''/'')
                            then rstrip_char (CHR ''/'') h0 else h0) b"
    by (simp add: derive_dir_def os_path_split_eq Let_def h0_def f_def name_def b_def
             split: prod.splits)
  show ?thesis
  proof (cases "h0 = []")
    case True
    then have "derive_dir p = take k p @ ''_snt''"
      using dd p k nb by (simp add: os_path_join_def b_def)
    then show ?thesis by blast
  next
    case False
    then have "dropWhile (\<lambda>x. x \<noteq> CHR ''/'') (rev p) \<noteq> []"
      by (simp add: h0_def)
    from hd_dropWhile [OF this] have "last h0 = CHR ''/''"
      by (simp add: h0_def last_rev)
    show ?thesis
    proof (cases "h0 = replicate (length h0) (CHR ''/'')")
      case True
      have "h0 = butlast h0 @ ''/''"
        using \<open>h0 \<noteq> []\<close> \<open>last h0 = CHR ''/''\<close> by (metis append_butlast_last_id)
      moreover have "derive_dir p = h0 @ b"
        using dd True nb \<open>h0 \<noteq> []\<close> \<open>last h0 = CHR ''/''\<close>
        by (simp add: os_path_join_def endswith_slash)
      ultimately have "p = butlast h0 @ CHR ''/'' # f \<and>
                       derive_dir p = butlast h0 @ CHR ''/'' # b"
        using p by (metis append.assoc append_Cons append_Nil)
      then show ?thesis by blast
    next
      case ns: False
      define z where "z = takeWhile (\<lambda>x. x = CHR ''/'') (rev h0)"
      define y where "y = dropWhile (\<lambda>x. x = CHR ''/'') (rev h0)"
      have "rev h0 = z @ y"
        by (simp add: z_def y_def)
      then have h: "h0 = rev y @ rev z"
        by (metis rev_append rev_rev_ident)
      have d: "rstrip_char (CHR ''/'') h0 = rev y"
        by (simp add: rstrip_char_def y_def)
      have "y \<noteq> []"
      proof
        assume "y = []"
        then have "\<forall>x\<in>set h0. x = CHR ''/''"
          by (simp add: y_def)
        then have "h0 = replicate (length h0) (CHR ''/'')"
          by (metis replicate_length_same)
        with ns show False by simp
      qed
      then have "\<not> hd y = CHR ''/''"
        unfolding y_def by (rule hd_dropWhile)
      then have ly: "rev y \<noteq> []" "last (rev y) \<noteq> CHR ''/''"
        using \<open>y \<noteq> []\<close> by (simp_all add: last_rev)
      have "hd (rev h0) = CHR ''/''"
        using \<open>last h0 = CHR ''/''\<close> by (simp add: hd_rev)
      then have "z \<noteq> []"
        using \<open>h0 \<noteq> []\<close> by (simp add: z_def takeWhile_eq_Nil_iff)
      moreover have "\<forall>x\<in>set z. x = CHR ''/''"
        by (auto simp: z_def dest: set_takeWhileD)
      ultimately obtain z' where "rev z = CHR ''/'' # z'"
        by (cases "rev z") auto
      with h have h': "h0 = rev y @ CHR ''/'' # z'"
        by simp
      have "derive_dir p = rev y @ ''/'' @ b"
        using dd ns \<open>h0 \<noteq> []\<close> d ly nb
        by (simp add: os_path_join_def endswith_slash)
      then have "p = rev y @ CHR ''/'' # (z' @ f) \<and> derive_dir p = rev y @ CHR ''/'' # b"
        using p h' by simp
      then show ?thesis by blast
    qed
  qed
qed

lemma workdir_not_virtual:
  assumes "\<not> startswith p v" and "v \<noteq> []" and "CHR ''/'' \<notin> set v"
    and "last v \<notin> set ''_snt''"
  shows "\<not> startswith (derive_dir p) v"
proof
  assume "startswith (derive_dir p) v"
  then have pre: "prefix v (derive_dir p)"
    by (simp add: startswith_prefix)
  have np: "\<not> prefix v p"
    using assms(1) by (simp add: startswith_prefix)
  from derive_dir_shape [of p] show False
  proof (elim disjE exE conjE)
    fix k
    assume "derive_dir p = take k p @ ''_snt''"
    with pre have "prefix v (take k p) \<or> (\<exists>us. v = take k p @ us \<and> prefix us ''_snt'')"
      by (simp add: prefix_append)
    then show False
    proof (elim disjE exE conjE)
      assume "prefix v (take k p)"
      then have "prefix v p"
        using take_is_prefix prefix_order.trans by blast
      with np show False ..
    next
      fix us
      assume us: "v = take k p @ us" "prefix us ''_snt''"
      show False
      proof (cases "us = []")
        case True
        with us have "prefix v p" by (simp add: take_is_prefix)
        with np show False ..
      next
        case False
        then have "last v = last us"
          using us by simp
        moreover have "last us \<in> set us"
          using False by simp
        moreover have "set us \<subseteq> set ''_snt''"
          using us(2) by (rule set_mono_prefix)
        ultimately have "last v \<in> set ''_snt''"
          by (metis subsetD)
        with assms(4) show False ..
      qed
    qed
  next
    fix d r1 r2
    assume s: "p = d @ CHR ''/'' # r1" "derive_dir p = d @ CHR ''/'' # r2"
    with pre have "prefix v d \<or> (\<exists>us. v = d @ us \<and> prefix us (CHR ''/'' # r2))"
      by (simp add: prefix_append)
    then show False
    proof (elim disjE exE conjE)
      assume "prefix v d"
      with s np show False by simp
    next
      fix us
      assume us: "v = d @ us" "prefix us (CHR ''/'' # r2)"
      show False
      proof (cases us)
        case Nil
        with us s np show False by simp
      next
        case (Cons u us')
        with us have "u = CHR ''/''" by simp
        with Cons us assms(3) show False by simp
      qed
    qed
  qed
qed

subsection \<open>The working directory\<close>

lemma bind_extends:
  assumes "prefix h (snd m)" and "\<And>x s. prefix s (snd (f x s))"
  shows "prefix h (snd (bind m f))"
proof (cases m)
  case (Pair r s)
  show ?thesis
  proof (cases r)
    case (Inl e)
    with Pair assms(1) show ?thesis by simp
  next
    case (Inr x)
    with Pair assms(1) assms(2) [of s x] show ?thesis
      by (auto intro: prefix_order.trans)
  qed
qed

lemma normalize_extends: "prefix h (snd (UnitexProcessor_normalize E self h))"
  by (simp add: UnitexProcessor_normalize_def external_def Let_def)

lemma segment_extends: "prefix h (snd (UnitexProcessor_segment E self h))"
  by (simp add: UnitexProcessor_segment_def external_def Let_def split: option.splits)

lemma replace_extends: "prefix h (snd (UnitexProcessor_replace E self h))"
  by (simp add: UnitexProcessor_replace_def external_def Let_def split: option.splits)

lemma tokenize_extends: "prefix h (snd (UnitexProcessor_tokenize E self h))"
  by (simp add: UnitexProcessor_tokenize_def external_def Let_def split: option.splits)

lemma lexicalize_extends: "prefix h (snd (UnitexProcessor_lexicalize E self h))"
  by (simp add: UnitexProcessor_lexicalize_def external_def Let_def split: option.splits)

lemma run_stages_extends: "prefix h (snd (run_stages E mode tagged self h))"
  unfolding run_stages_def
  by (intro bind_extends normalize_extends)
     (auto intro!: bind_extends segment_extends replace_extends tokenize_extends
        lexicalize_extends)

lemma stage_paths_calls:
  "snd (stage_paths K E p (self0, h0)) =
     h0 @ (if virtualization (self_config self0) then [Unitex_cp p (VFS_PREFIX K @ p)] else []) @
     [Os_path_exists (derive_dir p)] @
     (if answer E (h0 @ (if virtualization (self_config self0)
                         then [Unitex_cp p (VFS_PREFIX K @ p)] else []))
           (Os_path_exists (derive_dir p))
      then [] else [Unitex_mkdir (derive_dir p)])"
  by (simp add: stage_paths_def Let_def cp_def os_path_exists_def mkdir_def external_def)

lemma open_calls:
  assumes "UnitexProcessor_open K E p mode tagged (self0, h0) = (r, self, h)"
  shows "prefix (snd (stage_paths K E p (self0, h0))) h"
proof -
  obtain s1 h1 where s: "stage_paths K E p (self0, h0) = (s1, h1)"
    by (cases "stage_paths K E p (self0, h0)")
  with assms have "h = snd (run_stages E mode tagged s1 h1)"
    by (auto simp: UnitexProcessor_open_def Let_def split: prod.splits)
  with s show ?thesis
    using run_stages_extends [of h1 E mode tagged s1] by simp
qed

text \<open>
  C10, as amended. After \<open>open\<close>, with or without virtualization and whatever its
  outcome, the working directory stored is the derived path as it is: \<open>open\<close> puts the
  virtual prefix only in front of the text and the normalized path, and only with
  virtualization. The first calls of \<open>open\<close> are the copy into the virtual namespace
  (with virtualization), the disk existence check of the working directory and, when
  the check fails, \<open>mkdir\<close> of it, all on the path as derived; the last call of
  \<open>close(clean=True)\<close> is \<open>rmdir\<close> of that path. When the input path does not carry
  the virtual prefix, the working directory does not carry it either (the prefix being
  a non-empty string without a separator whose last character is none of the
  characters of \<open>_snt\<close>).
\<close>

theorem workdir_stays_on_disk:
  assumes "UnitexProcessor_open K E p mode tagged (self0, h0) = (r, self, h)"
  shows "self_dir self = Some (derive_dir p) \<and>
         self_txt self =
           Some (if virtualization (self_config self0) then VFS_PREFIX K @ p else p) \<and>
         self_snt self =
           Some (if virtualization (self_config self0) then VFS_PREFIX K @ derive_snt p
                 else derive_snt p) \<and>
         (\<exists>rest. h =
            h0 @
            (if virtualization (self_config self0) then [Unitex_cp p (VFS_PREFIX K @ p)]
             else []) @
            [Os_path_exists (derive_dir p)] @
            (if answer E (h0 @ (if virtualization (self_config self0)
                                then [Unitex_cp p (VFS_PREFIX K @ p)] else []))
                  (Os_path_exists (derive_dir p))
             then [] else [Unitex_mkdir (derive_dir p)]) @
            rest) \<and>
         (\<exists>calls. UnitexProcessor_close K E True False (self, h) =
            (Inr (), self\<lparr>self_txt := None, self_snt := None, self_dir := None\<rparr>,
             h @ calls @ [Unitex_rmdir (derive_dir p)])) \<and>
         (\<not> startswith p (VFS_PREFIX K) \<and> VFS_PREFIX K \<noteq> [] \<and>
          CHR ''/'' \<notin> set (VFS_PREFIX K) \<and> last (VFS_PREFIX K) \<notin> set ''_snt'' \<longrightarrow>
          \<not> startswith (derive_dir p) (VFS_PREFIX K))"
proof -
  obtain h1 where st: "stage_paths K E p (self0, h0) = (self, h1)"
    using open_stage_paths [OF assms(1)] by blast
  note f = stage_paths_fields [OF st]
  have 1: "\<not> startswith (derive_dir p) (VFS_PREFIX K)"
    if "\<not> startswith p (VFS_PREFIX K)" and "VFS_PREFIX K \<noteq> []"
      and "CHR ''/'' \<notin> set (VFS_PREFIX K)" and "last (VFS_PREFIX K) \<notin> set ''_snt''"
    using that by (rule workdir_not_virtual)
  have "prefix (snd (stage_paths K E p (self0, h0))) h"
    using assms(1) by (rule open_calls)
  then obtain rest where "h = snd (stage_paths K E p (self0, h0)) @ rest"
    by (auto simp: prefix_def)
  then have 2: "\<exists>rest. h =
            h0 @
            (if virtualization (self_config self0) then [Unitex_cp p (VFS_PREFIX K @ p)]
             else []) @
            [Os_path_exists (derive_dir p)] @
            (if answer E (h0 @ (if virtualization (self_config self0)
                                then [Unitex_cp p (VFS_PREFIX K @ p)] else []))
                  (Os_path_exists (derive_dir p))
             then [] else [Unitex_mkdir (derive_dir p)]) @
            rest"
    unfolding stage_paths_calls by (metis append.assoc)
  have 3: "\<exists>calls. UnitexProcessor_close K E True False (self, h) =
            (Inr (), self\<lparr>self_txt := None, self_snt := None, self_dir := None\<rparr>,
             h @ calls @ [Unitex_rmdir (derive_dir p)])"
  proof (cases "virtualization (self_config self0)")
    case True
    then have "UnitexProcessor_clean K E self h =
           (Inr (), h @ [Unitex_ls (VFS_PREFIX K @ derive_dir p)] @
                    map Unitex_rm (listing E h (VFS_PREFIX K @ derive_dir p)) @
                    [Unitex_rm (VFS_PREFIX K @ derive_snt p), Unitex_rm (VFS_PREFIX K @ p),
                     Unitex_rmdir (derive_dir p)])"
      using f by (intro clean_virtual) simp_all
    then have "UnitexProcessor_close K E True False (self, h) =
            (Inr (), self\<lparr>self_txt := None, self_snt := None, self_dir := None\<rparr>,
             h @ ([Unitex_ls (VFS_PREFIX K @ derive_dir p)] @
                    map Unitex_rm (listing E h (VFS_PREFIX K @ derive_dir p)) @
                    [Unitex_rm (VFS_PREFIX K @ derive_snt p), Unitex_rm (VFS_PREFIX K @ p)]) @
                 [Unitex_rmdir (derive_dir p)])"
      by (simp add: UnitexProcessor_close_def)
    then show ?thesis ..
  next
    case False
    then have "UnitexProcessor_clean K E self h =
           (Inr (), h @ [Unitex_rm (derive_snt p), Unitex_rmdir (derive_dir p)])"
      using f by (intro clean_disk) simp_all
    then have "UnitexProcessor_close K E True False (self, h) =
            (Inr (), self\<lparr>self_txt := None, self_snt := None, self_dir := None\<rparr>,
             h @ [Unitex_rm (derive_snt p)] @ [Unitex_rmdir (derive_dir p)])"
      by (simp add: UnitexProcessor_close_def)
    then show ?thesis ..
  qed
  show ?thesis
    using f(3) f(4) f(5) 1 2 3 by blast
qed

theorem workdir_stays_on_disk_witness:
  "\<not> startswith ''corpus/foo.txt'' (VFS_PREFIX example_constants) \<and>
   VFS_PREFIX example_constants \<noteq> [] \<and>
   CHR ''/'' \<notin> set (VFS_PREFIX example_constants) \<and>
   last (VFS_PREFIX example_constants) \<notin> set ''_snt'' \<and>
   self_dir (fst (snd (example_opened True))) = Some ''corpus/foo_snt'' \<and>
   \<not> startswith ''corpus/foo_snt'' (VFS_PREFIX example_constants) \<and>
   self_txt (fst (snd (example_opened True))) = Some ''$:corpus/foo.txt'' \<and>
   self_snt (fst (snd (example_opened True))) = Some ''$:corpus/foo.snt'' \<and>
   (\<exists>rest. snd (snd (example_opened True)) =
      [Unitex_cp ''corpus/foo.txt'' ''$:corpus/foo.txt'', Os_path_exists ''corpus/foo_snt'',
       Unitex_mkdir ''corpus/foo_snt''] @ rest) \<and>
   (\<exists>calls. snd (snd (UnitexProcessor_close example_constants (example_env []) True False
                        (snd (example_opened True)))) =
      snd (snd (example_opened True)) @ calls @ [Unitex_rmdir ''corpus/foo_snt''])"
proof -
  have e: "UnitexProcessor_open example_constants (example_env []) ''corpus/foo.txt'' ''srtl''
             False (example_processor False True, []) =
           (fst (example_opened True), fst (snd (example_opened True)),
            snd (snd (example_opened True)))"
    by (simp add: example_opened_def)
  have n: "\<not> startswith ''corpus/foo.txt'' (VFS_PREFIX example_constants)"
    "VFS_PREFIX example_constants \<noteq> []"
    "CHR ''/'' \<notin> set (VFS_PREFIX example_constants)"
    "last (VFS_PREFIX example_constants) \<notin> set ''_snt''"
    by (simp_all add: example_constants_def startswith_def)
  have v: "virtualization (self_config (example_processor False True))"
    by code_simp
  have a: "answer (example_env []) [Unitex_cp ''corpus/foo.txt'' ''$:corpus/foo.txt'']
             (Os_path_exists ''corpus/foo_snt'') = False"
    by code_simp
  have c: "snd (example_opened True) =
             (fst (snd (example_opened True)), snd (snd (example_opened True)))"
    by simp
  from workdir_stays_on_disk [OF e] n v a
  have "self_dir (fst (snd (example_opened True))) = Some ''corpus/foo_snt''"
    and "\<not> startswith ''corpus/foo_snt'' (VFS_PREFIX example_constants)"
    and "self_txt (fst (snd (example_opened True))) = Some ''$:corpus/foo.txt''"
    and "self_snt (fst (snd (example_opened True))) = Some ''$:corpus/foo.snt''"
    and "\<exists>rest. snd (snd (example_opened True)) =
      [Unitex_cp ''corpus/foo.txt'' ''$:corpus/foo.txt'', Os_path_exists ''corpus/foo_snt'',
       Unitex_mkdir ''corpus/foo_snt''] @ rest"
    and "\<exists>calls. UnitexProcessor_close example_constants (example_env []) True False
                        (fst (snd (example_opened True)), snd (snd (example_opened True))) =
          (Inr (), (fst (snd (example_opened True)))
                      \<lparr>self_txt := None, self_snt := None, self_dir := None\<rparr>,
           snd (snd (example_opened True)) @ calls @ [Unitex_rmdir ''corpus/foo_snt''])"
    by (simp_all add: example_paths example_constants_def)
  then show ?thesis
    using n by (auto simp del: prod.collapse simp: c [symmetric])
qed

text \<open>
  C10 as stated fails: the working directory is derived from the input path as it is
  given, so a session opened on a path that carries the virtual prefix stores a working
  directory that carries it, and the existence check and \<open>mkdir\<close> run on that path.
\<close>

theorem workdir_prefixed_counterexample:
  "self_dir (fst (snd (UnitexProcessor_open example_constants (example_env [])
      ''$:corpus/foo.txt'' ''srtl'' False (example_processor False True, [])))) =
     Some ''$:corpus/foo_snt'' \<and>
   startswith ''$:corpus/foo_snt'' (VFS_PREFIX example_constants) \<and>
   take 3 (snd (snd (UnitexProcessor_open example_constants (example_env [])
      ''$:corpus/foo.txt'' ''srtl'' False (example_processor False True, [])))) =
     [Unitex_cp ''$:corpus/foo.txt'' ''$:$:corpus/foo.txt'',
      Os_path_exists ''$:corpus/foo_snt'', Unitex_mkdir ''$:corpus/foo_snt'']"
  by code_simp

subsection \<open>Reading the index file\<close>


















end
